theory Spec2Isabelle
  imports Main
begin

section \<open>The lgtm plugin: data model\<close>

text \<open>
  The plugin lives in two files: \<^verbatim>\<open>prow/plugins/lgtm/lgtm.go\<close>, whose \<^verbatim>\<open>handle\<close> takes the
  fields of the event as positional arguments, and a second copy of the file in which
  the same fields travel in a \<^verbatim>\<open>state\<close> struct. Both are embedded here; the definitions
  of the second copy carry the suffix \<open>_s\<close>.

  Strings are Go strings: byte sequences, here \<open>char list\<close>. Go's \<^verbatim>\<open>int\<close> is only
  passed along (never computed with), so \<open>int\<close> stands for it. A Go \<^verbatim>\<open>error\<close> is an
  opaque value; \<open>None\<close> is \<^verbatim>\<open>nil\<close>.
\<close>

type_synonym error = string

text \<open>The fields of \<^verbatim>\<open>github.User\<close>, \<^verbatim>\<open>github.Repo\<close> and \<^verbatim>\<open>github.Label\<close> the plugin reads.\<close>

record User =
  Login :: string

record Repo =
  Owner :: User
  Name :: string

record Label =
  Name :: string

record GenericCommentEvent =
  IsPR :: bool
  Action :: string
  Body :: string
  HTMLURL :: string
  Number :: int
  Repo :: Repo
  User :: User
  IssueAuthor :: User
  Assignees :: "User list"
  IssueState :: string

record Review =
  User :: User
  Body :: string
  HTMLURL :: string
  State :: string

record PullRequest =
  User :: User
  Assignees :: "User list"
  Number :: int

record ReviewEvent =
  Review :: Review
  PullRequest :: PullRequest
  Repo :: Repo

definition lgtmLabel :: string where
  "lgtmLabel = ''lgtm''"

text \<open>
  Modelled from the spec: the constant \<^verbatim>\<open>github.GenericCommentActionCreated\<close> is declared
  in package \<^verbatim>\<open>github\<close>; the spec names the action "created".
\<close>

definition GenericCommentActionCreated :: string where
  "GenericCommentActionCreated = ''created''"

subsection \<open>The GitHub client\<close>

text \<open>
  \<^verbatim>\<open>githubClient\<close> is an interface: the handler may be given any implementation. An
  implementation is a record of functions over a client state \<open>'s\<close> of its own (the
  service behind it), each returning its Go results and the next client state. A
  method returning \<^verbatim>\<open>(T, error)\<close> returns a pair, as in Go.
\<close>

record 's githubClient =
  IsMember :: "string \<Rightarrow> string \<Rightarrow> 's \<Rightarrow> (bool \<times> error option) \<times> 's"
  AddLabel :: "string \<Rightarrow> string \<Rightarrow> int \<Rightarrow> string \<Rightarrow> 's \<Rightarrow> error option \<times> 's"
  AssignIssue :: "string \<Rightarrow> string \<Rightarrow> int \<Rightarrow> string list \<Rightarrow> 's \<Rightarrow> error option \<times> 's"
  CreateComment :: "string \<Rightarrow> string \<Rightarrow> int \<Rightarrow> string \<Rightarrow> 's \<Rightarrow> error option \<times> 's"
  RemoveLabel :: "string \<Rightarrow> string \<Rightarrow> int \<Rightarrow> string \<Rightarrow> 's \<Rightarrow> error option \<times> 's"
  GetIssueLabels :: "string \<Rightarrow> string \<Rightarrow> int \<Rightarrow> 's \<Rightarrow> (Label list \<times> error option) \<times> 's"

text \<open>\<^verbatim>\<open>plugins.PluginClient\<close>; the logger writes to no place the handlers read and is left out.\<close>

record 's PluginClient =
  GitHubClient :: "'s githubClient"

text \<open>The calls a handler makes are recorded, in order, with their arguments.\<close>

datatype call =
    IsMemberCall string string
  | AddLabelCall string string int string
  | AssignIssueCall string string int "string list"
  | CreateCommentCall string string int string
  | RemoveLabelCall string string int string
  | GetIssueLabelsCall string string int

type_synonym 's run = "call list \<times> 's"

definition gcIsMember ::
  "'s githubClient \<Rightarrow> string \<Rightarrow> string \<Rightarrow> 's run \<Rightarrow> (bool \<times> error option) \<times> 's run" where
  "gcIsMember gc owner login w =
     (case IsMember gc owner login (snd w) of
        (r, s') \<Rightarrow> (r, (fst w @ [IsMemberCall owner login], s')))"

definition gcAddLabel ::
  "'s githubClient \<Rightarrow> string \<Rightarrow> string \<Rightarrow> int \<Rightarrow> string \<Rightarrow> 's run \<Rightarrow> error option \<times> 's run" where
  "gcAddLabel gc owner rp n label w =
     (case AddLabel gc owner rp n label (snd w) of
        (r, s') \<Rightarrow> (r, (fst w @ [AddLabelCall owner rp n label], s')))"

definition gcAssignIssue ::
  "'s githubClient \<Rightarrow> string \<Rightarrow> string \<Rightarrow> int \<Rightarrow> string list \<Rightarrow> 's run \<Rightarrow> error option \<times> 's run" where
  "gcAssignIssue gc owner rp n as w =
     (case AssignIssue gc owner rp n as (snd w) of
        (r, s') \<Rightarrow> (r, (fst w @ [AssignIssueCall owner rp n as], s')))"

definition gcCreateComment ::
  "'s githubClient \<Rightarrow> string \<Rightarrow> string \<Rightarrow> int \<Rightarrow> string \<Rightarrow> 's run \<Rightarrow> error option \<times> 's run" where
  "gcCreateComment gc owner rp n comment w =
     (case CreateComment gc owner rp n comment (snd w) of
        (r, s') \<Rightarrow> (r, (fst w @ [CreateCommentCall owner rp n comment], s')))"

definition gcRemoveLabel ::
  "'s githubClient \<Rightarrow> string \<Rightarrow> string \<Rightarrow> int \<Rightarrow> string \<Rightarrow> 's run \<Rightarrow> error option \<times> 's run" where
  "gcRemoveLabel gc owner rp n label w =
     (case RemoveLabel gc owner rp n label (snd w) of
        (r, s') \<Rightarrow> (r, (fst w @ [RemoveLabelCall owner rp n label], s')))"

definition gcGetIssueLabels ::
  "'s githubClient \<Rightarrow> string \<Rightarrow> string \<Rightarrow> int \<Rightarrow> 's run \<Rightarrow> (Label list \<times> error option) \<times> 's run" where
  "gcGetIssueLabels gc org rp n w =
     (case GetIssueLabels gc org rp n (snd w) of
        (r, s') \<Rightarrow> (r, (fst w @ [GetIssueLabelsCall org rp n], s')))"

text \<open>
  \<^verbatim>\<open>plugins.FormatResponseRaw(body, bodyURL, login, reply)\<close> belongs to package
  \<^verbatim>\<open>plugins\<close>; the handlers only pass its result on, so it is a parameter of the model.
\<close>

type_synonym formatter = "string \<Rightarrow> string \<Rightarrow> string \<Rightarrow> string \<Rightarrow> string"

section \<open>The regular expressions\<close>

text \<open>
  The two patterns are Go (RE2) regular expressions with the flags \<^verbatim>\<open>m\<close> and \<^verbatim>\<open>i\<close>. The
  fragment they use: classes of runes, concatenation, \<^verbatim>\<open>?\<close>, \<^verbatim>\<open>*\<close> over a class of
  one-byte runes, and the two line anchors. A rune is given by its UTF-8 bytes.
\<close>

datatype regex =
    Empty
  | RuneClass "string list"
  | Cat regex regex
  | Opt regex
  | StarAscii "char list"
  | BeginLine
  | EndLine

definition newline :: char where
  "newline = CHR 0x0A"

text \<open>\<^verbatim>\<open>\s\<close> in RE2 is \<^verbatim>\<open>[\t\n\f\r ]\<close>.\<close>

definition spaceClass :: "char list" where
  "spaceClass = [CHR 0x09, CHR 0x0A, CHR 0x0C, CHR 0x0D, CHR 0x20]"

text \<open>
  Under \<^verbatim>\<open>(?i)\<close> a literal matches every rune of its simple case-folding orbit. For an
  ASCII letter that is the other case and, for \<^verbatim>\<open>s\<close> and \<^verbatim>\<open>k\<close>, one more rune each:
  U+017F (bytes C5 BF) and U+212A (bytes E2 84 AA).
\<close>

definition asciiLower :: string where
  "asciiLower = ''abcdefghijklmnopqrstuvwxyz''"

definition asciiUpper :: string where
  "asciiUpper = ''ABCDEFGHIJKLMNOPQRSTUVWXYZ''"

definition foldExtra :: "char \<Rightarrow> string list" where
  "foldExtra l =
     (if l = CHR ''s'' then [[CHR 0xC5, CHR 0xBF]]
      else if l = CHR ''k'' then [[CHR 0xE2, CHR 0x84, CHR 0xAA]]
      else [])"

definition foldOrbit :: "char \<Rightarrow> string list" where
  "foldOrbit c =
     (case map_of (zip asciiLower asciiUpper) c of
        Some u \<Rightarrow> [[u], [c]] @ foldExtra c
      | None \<Rightarrow>
          (case map_of (zip asciiUpper asciiLower) c of
             Some l \<Rightarrow> [[c], [l]] @ foldExtra l
           | None \<Rightarrow> [[c]]))"

fun foldLit :: "string \<Rightarrow> regex" where
  "foldLit [] = Empty"
| "foldLit (c # cs) = Cat (RuneClass (foldOrbit c)) (foldLit cs)"

text \<open>
  A configuration of the matcher: the byte before the current position (\<open>None\<close> at the
  start of the text) and the text still to read.
\<close>

type_synonym cfg = "char option \<times> string"

fun stepRunes :: "string list \<Rightarrow> cfg \<Rightarrow> cfg list" where
  "stepRunes [] cfg = []"
| "stepRunes (r # rs) cfg =
     (if r \<noteq> [] \<and> take (length r) (snd cfg) = r
      then (Some (last r), drop (length r) (snd cfg)) # stepRunes rs cfg
      else stepRunes rs cfg)"

fun starAscii :: "char list \<Rightarrow> char option \<Rightarrow> string \<Rightarrow> cfg list" where
  "starAscii cs p [] = [(p, [])]"
| "starAscii cs p (x # xs) =
     (p, x # xs) # (if x \<in> set cs then starAscii cs (Some x) xs else [])"

text \<open>
  \<open>rmatch r cfg\<close>: every configuration in which a match of \<open>r\<close> that starts at \<open>cfg\<close> can
  end. In multi-line mode \<^verbatim>\<open>^\<close> holds at the start of the text and after a newline,
  \<^verbatim>\<open>$\<close> at the end of the text and before a newline.
\<close>

fun rmatch :: "regex \<Rightarrow> cfg \<Rightarrow> cfg list" where
  "rmatch Empty cfg = [cfg]"
| "rmatch (RuneClass rs) cfg = stepRunes rs cfg"
| "rmatch (Cat a b) cfg = concat (map (rmatch b) (rmatch a cfg))"
| "rmatch (Opt a) cfg = rmatch a cfg @ [cfg]"
| "rmatch (StarAscii cs) cfg = starAscii cs (fst cfg) (snd cfg)"
| "rmatch BeginLine cfg =
     (if fst cfg = None \<or> fst cfg = Some newline then [cfg] else [])"
| "rmatch EndLine cfg =
     (case snd cfg of [] \<Rightarrow> [cfg] | x # xs \<Rightarrow> if x = newline then [cfg] else [])"

fun positions :: "char option \<Rightarrow> string \<Rightarrow> cfg list" where
  "positions p [] = [(p, [])]"
| "positions p (x # xs) = (p, x # xs) # positions (Some x) xs"

text \<open>\<^verbatim>\<open>(*Regexp).MatchString\<close>: the pattern matches somewhere in the text.\<close>

definition MatchString :: "regex \<Rightarrow> string \<Rightarrow> bool" where
  "MatchString re s = list_ex (\<lambda>cfg. rmatch re cfg \<noteq> []) (positions None s)"

text \<open>\<^verbatim>\<open>(?mi)^/lgtm(?: no-issue)?\s*$\<close>\<close>

definition lgtmRe :: regex where
  "lgtmRe =
     Cat BeginLine
       (Cat (foldLit ''/lgtm'')
         (Cat (Opt (foldLit '' no-issue''))
           (Cat (StarAscii spaceClass) EndLine)))"

text \<open>\<^verbatim>\<open>(?mi)^/lgtm cancel\s*$\<close>\<close>

definition lgtmCancelRe :: regex where
  "lgtmCancelRe =
     Cat BeginLine
       (Cat (foldLit ''/lgtm cancel'')
         (Cat (StarAscii spaceClass) EndLine))"

section \<open>The handlers of lgtm.go\<close>

text \<open>The loop over the assignees, with its \<^verbatim>\<open>break\<close>.\<close>

fun isAssigneeLoop :: "User list \<Rightarrow> string \<Rightarrow> bool" where
  "isAssigneeLoop [] author = False"
| "isAssigneeLoop (assignee # rest) author =
     (if Login assignee = author then True else isAssigneeLoop rest author)"

text \<open>The loop over the labels, with its \<^verbatim>\<open>break\<close>.\<close>

fun hasLGTMLoop :: "Label list \<Rightarrow> bool" where
  "hasLGTMLoop [] = False"
| "hasLGTMLoop (candidate # rest) =
     (if Label.Name candidate = lgtmLabel then True else hasLGTMLoop rest)"

text \<open>
  \<^verbatim>\<open>handle\<close>. The block that assigns the reviewer either returns from the function
  (\<open>Some\<close> of the returned value) or falls through (\<open>None\<close>).
\<close>

definition handle ::
  "formatter \<Rightarrow> bool \<Rightarrow> string \<Rightarrow> string \<Rightarrow> Repo \<Rightarrow> User list \<Rightarrow> int \<Rightarrow> string \<Rightarrow> string \<Rightarrow>
   's githubClient \<Rightarrow> 's run \<Rightarrow> error option \<times> 's run" where
  "handle FormatResponseRaw wantLGTM author issueAuthor repo assignees number body htmlURL gc w =
     (let org = Login (Owner repo);
          repoName = Repo.Name repo;
          isAssignee = isAssigneeLoop assignees author;
          (returned, w1) =
            (if \<not> isAssignee then
               (case gcAssignIssue gc org repoName number [author] w of
                  (Some err, wa) \<Rightarrow>
                    (case gcIsMember gc org author wa of
                       ((ok, merr), wm) \<Rightarrow>
                         (let msg = (if merr = None \<and> \<not> ok
                                     then ''only '' @ org @ '' org members may be assigned issues''
                                     else ''assigning you to the PR failed'');
                              resp = ''changing LGTM is restricted to assignees, and '' @ msg @ ''.''
                          in (case gcCreateComment gc org repoName number
                                     (FormatResponseRaw body htmlURL author resp) wm of
                                (r, wc) \<Rightarrow> (Some r, wc))))
                | (None, wa) \<Rightarrow> (None, wa))
             else (None, w))
      in case returned of
           Some r \<Rightarrow> (r, w1)
         | None \<Rightarrow>
             (case gcGetIssueLabels gc org repoName number w1 of
                ((labels, err), w2) \<Rightarrow>
                  (let hasLGTM = hasLGTMLoop labels
                   in if hasLGTM \<and> \<not> wantLGTM then gcRemoveLabel gc org repoName number lgtmLabel w2
                      else if \<not> hasLGTM \<and> wantLGTM then gcAddLabel gc org repoName number lgtmLabel w2
                      else (None, w2))))"

definition handleGenericComment ::
  "formatter \<Rightarrow> 's PluginClient \<Rightarrow> GenericCommentEvent \<Rightarrow> 's run \<Rightarrow> error option \<times> 's run" where
  "handleGenericComment FormatResponseRaw pc e w =
     (let author = Login (GenericCommentEvent.User e);
          issueAuthor = Login (IssueAuthor e);
          repo = GenericCommentEvent.Repo e;
          assignees = GenericCommentEvent.Assignees e;
          number = GenericCommentEvent.Number e;
          body = GenericCommentEvent.Body e;
          htmlURL = GenericCommentEvent.HTMLURL e;
          gc = GitHubClient pc
      in if \<not> IsPR e \<or> IssueState e \<noteq> ''open'' \<or> Action e \<noteq> GenericCommentActionCreated
         then (None, w)
         else
           (case (if MatchString lgtmRe body then Some True
                  else if MatchString lgtmCancelRe body then Some False
                  else None) of
              None \<Rightarrow> (None, w)
            | Some wantLGTM \<Rightarrow>
                (let isAuthor = (author = issueAuthor)
                 in if isAuthor \<and> wantLGTM
                    then (let resp = ''you cannot LGTM your own PR.''
                          in gcCreateComment gc (Login (Owner repo)) (Repo.Name repo) number
                               (FormatResponseRaw body htmlURL author resp) w)
                    else handle FormatResponseRaw wantLGTM author issueAuthor repo assignees number
                           body htmlURL gc w)))"

definition handlePullRequestReview ::
  "formatter \<Rightarrow> 's PluginClient \<Rightarrow> ReviewEvent \<Rightarrow> 's run \<Rightarrow> error option \<times> 's run" where
  "handlePullRequestReview FormatResponseRaw pc e w =
     (let author = Login (Review.User (Review e));
          issueAuthor = Login (PullRequest.User (PullRequest e));
          repo = ReviewEvent.Repo e;
          assignees = PullRequest.Assignees (PullRequest e);
          number = PullRequest.Number (PullRequest e);
          body = Review.Body (Review e);
          htmlURL = Review.HTMLURL (Review e)
      in case (if State (Review e) = ''approve'' then Some True
               else if State (Review e) = ''changes_requested'' then Some False
               else None) of
           None \<Rightarrow> (None, w)
         | Some wantLGTM \<Rightarrow>
             handle FormatResponseRaw wantLGTM author issueAuthor repo assignees number
               body htmlURL (GitHubClient pc) w)"

section \<open>The handlers of the second copy\<close>

text \<open>The \<^verbatim>\<open>state\<close> struct of the second copy.\<close>

record state =
  author :: string
  issueAuthor :: string
  repo :: Repo
  assignees :: "User list"
  number :: int
  body :: string
  htmlURL :: string

definition handle_s ::
  "formatter \<Rightarrow> bool \<Rightarrow> 's githubClient \<Rightarrow> state \<Rightarrow> 's run \<Rightarrow> error option \<times> 's run" where
  "handle_s FormatResponseRaw wantLGTM gc pr w =
     (let org = Login (Owner (repo pr));
          repoName = Repo.Name (repo pr);
          isAssignee = isAssigneeLoop (assignees pr) (author pr);
          (returned, w1) =
            (if \<not> isAssignee then
               (case gcAssignIssue gc org repoName (number pr) [author pr] w of
                  (Some err, wa) \<Rightarrow>
                    (case gcIsMember gc org (author pr) wa of
                       ((ok, merr), wm) \<Rightarrow>
                         (let msg = (if merr = None \<and> \<not> ok
                                     then ''only '' @ org @ '' org members may be assigned issues''
                                     else ''assigning you to the PR failed'');
                              resp = ''changing LGTM is restricted to assignees, and '' @ msg @ ''.''
                          in (case gcCreateComment gc org repoName (number pr)
                                     (FormatResponseRaw (body pr) (htmlURL pr) (author pr) resp) wm of
                                (r, wc) \<Rightarrow> (Some r, wc))))
                | (None, wa) \<Rightarrow> (None, wa))
             else (None, w))
      in case returned of
           Some r \<Rightarrow> (r, w1)
         | None \<Rightarrow>
             (case gcGetIssueLabels gc org repoName (number pr) w1 of
                ((labels, err), w2) \<Rightarrow>
                  (let hasLGTM = hasLGTMLoop labels
                   in if hasLGTM \<and> \<not> wantLGTM
                      then gcRemoveLabel gc org repoName (number pr) lgtmLabel w2
                      else if \<not> hasLGTM \<and> wantLGTM
                      then gcAddLabel gc org repoName (number pr) lgtmLabel w2
                      else (None, w2))))"

definition handleGenericComment_s ::
  "formatter \<Rightarrow> 's PluginClient \<Rightarrow> GenericCommentEvent \<Rightarrow> 's run \<Rightarrow> error option \<times> 's run" where
  "handleGenericComment_s FormatResponseRaw pc e w =
     (let author = Login (GenericCommentEvent.User e);
          issueAuthor = Login (IssueAuthor e);
          repo = GenericCommentEvent.Repo e;
          assignees = GenericCommentEvent.Assignees e;
          number = GenericCommentEvent.Number e;
          body = GenericCommentEvent.Body e;
          htmlURL = GenericCommentEvent.HTMLURL e;
          gc = GitHubClient pc
      in if \<not> IsPR e \<or> IssueState e \<noteq> ''open'' \<or> Action e \<noteq> GenericCommentActionCreated
         then (None, w)
         else
           (case (if MatchString lgtmRe body then Some True
                  else if MatchString lgtmCancelRe body then Some False
                  else None) of
              None \<Rightarrow> (None, w)
            | Some wantLGTM \<Rightarrow>
                (let isAuthor = (author = issueAuthor)
                 in if isAuthor \<and> wantLGTM
                    then (let resp = ''you cannot LGTM your own PR.''
                          in gcCreateComment gc (Login (Owner repo)) (Repo.Name repo) number
                               (FormatResponseRaw body htmlURL author resp) w)
                    else handle_s FormatResponseRaw wantLGTM gc
                           \<lparr>author = author, issueAuthor = issueAuthor, repo = repo,
                            assignees = assignees, number = number, body = body,
                            htmlURL = htmlURL\<rparr> w)))"

definition handlePullRequestReview_s ::
  "formatter \<Rightarrow> 's PluginClient \<Rightarrow> ReviewEvent \<Rightarrow> 's run \<Rightarrow> error option \<times> 's run" where
  "handlePullRequestReview_s FormatResponseRaw pc e w =
     (case (if State (Review e) = ''approve'' then Some True
            else if State (Review e) = ''changes_requested'' then Some False
            else None) of
        None \<Rightarrow> (None, w)
      | Some wantLGTM \<Rightarrow>
          handle_s FormatResponseRaw wantLGTM (GitHubClient pc)
            \<lparr>author = Login (Review.User (Review e)),
             issueAuthor = Login (PullRequest.User (PullRequest e)),
             repo = ReviewEvent.Repo e,
             assignees = PullRequest.Assignees (PullRequest e),
             number = PullRequest.Number (PullRequest e),
             body = Review.Body (Review e),
             htmlURL = Review.HTMLURL (Review e)\<rparr> w)"

section \<open>What the specification says, in its own words\<close>

text \<open>
  The specification describes the patterns line by line: a line that is, ignoring case,
  the command and then nothing but whitespace. These definitions follow that wording;
  they are compared with \<open>MatchString\<close> below.
\<close>

fun splitLines :: "string \<Rightarrow> string list" where
  "splitLines [] = [[]]"
| "splitLines (c # cs) =
     (if c = newline then [] # splitLines cs
      else (c # hd (splitLines cs)) # tl (splitLines cs))"

text \<open>\<open>eqFold t pat\<close>: the text \<open>t\<close> is the ASCII string \<open>pat\<close>, ignoring case.\<close>

fun eqFold :: "string \<Rightarrow> string \<Rightarrow> bool" where
  "eqFold t [] = (t = [])"
| "eqFold t (c # cs) =
     list_ex (\<lambda>r. take (length r) t = r \<and> eqFold (drop (length r) t) cs) (foldOrbit c)"

definition lineIs :: "string \<Rightarrow> string \<Rightarrow> bool" where
  "lineIs pat l =
     list_ex (\<lambda>k. eqFold (take k l) pat \<and> list_all (\<lambda>c. c \<in> set spaceClass) (drop k l))
       [0..<Suc (length l)]"

definition lgtmLine :: "string \<Rightarrow> bool" where
  "lgtmLine l = (lineIs ''/lgtm'' l \<or> lineIs ''/lgtm no-issue'' l)"

definition cancelLine :: "string \<Rightarrow> bool" where
  "cancelLine l = lineIs ''/lgtm cancel'' l"

section \<open>Observing a run\<close>

fun isCreateComment :: "call \<Rightarrow> bool" where
  "isCreateComment (CreateCommentCall org rp n text) = True"
| "isCreateComment c = False"

fun isAddLabel :: "call \<Rightarrow> bool" where
  "isAddLabel (AddLabelCall org rp n label) = True"
| "isAddLabel c = False"

fun isRemoveLabel :: "call \<Rightarrow> bool" where
  "isRemoveLabel (RemoveLabelCall org rp n label) = True"
| "isRemoveLabel c = False"

fun isGetIssueLabels :: "call \<Rightarrow> bool" where
  "isGetIssueLabels (GetIssueLabelsCall org rp n) = True"
| "isGetIssueLabels c = False"

text \<open>
  A client for concrete runs: its state is the list of label names on the issue;
  \<^verbatim>\<open>AssignIssue\<close>, \<^verbatim>\<open>IsMember\<close> and a failure of \<^verbatim>\<open>GetIssueLabels\<close> are scripted.
\<close>

definition testClient ::
  "error option \<Rightarrow> bool \<times> error option \<Rightarrow> error option \<Rightarrow> string list githubClient" where
  "testClient assignResult memberResult labelsFailure =
     \<lparr>IsMember = (\<lambda>owner login s. (memberResult, s)),
      AddLabel = (\<lambda>owner rp n label s. (None, label # s)),
      AssignIssue = (\<lambda>owner rp n as s. (assignResult, s)),
      CreateComment = (\<lambda>owner rp n comment s. (None, s)),
      RemoveLabel = (\<lambda>owner rp n label s. (None, removeAll label s)),
      GetIssueLabels = (\<lambda>org rp n s.
         (case labelsFailure of
            Some e \<Rightarrow> (([], Some e), s)
          | None \<Rightarrow> ((map (\<lambda>l. \<lparr>Name = l\<rparr>) s, None), s)))\<rparr>"


definition testFormat :: formatter where
  "testFormat bd url login reply = ''@'' @ login @ '': '' @ reply"

text \<open>Events and a repository for concrete runs.\<close>

definition exampleRepo :: Repo where
  "exampleRepo = \<lparr>Owner = \<lparr>Login = ''kubernetes''\<rparr>, Name = ''test-infra''\<rparr>"

definition reviewEvent :: "string \<Rightarrow> string \<Rightarrow> string \<Rightarrow> User list \<Rightarrow> ReviewEvent" where
  "reviewEvent reviewer prAuthor st asgs =
     \<lparr>Review = \<lparr>Review.User = \<lparr>Login = reviewer\<rparr>, Review.Body = ''looks fine'',
                Review.HTMLURL = ''url'', State = st\<rparr>,
      PullRequest = \<lparr>PullRequest.User = \<lparr>Login = prAuthor\<rparr>, PullRequest.Assignees = asgs,
                     PullRequest.Number = 7\<rparr>,
      ReviewEvent.Repo = exampleRepo\<rparr>"

definition commentEvent :: "string \<Rightarrow> string \<Rightarrow> string \<Rightarrow> User list \<Rightarrow> GenericCommentEvent" where
  "commentEvent commenter prAuthor bd asgs =
     \<lparr>IsPR = True, Action = ''created'', GenericCommentEvent.Body = bd,
      GenericCommentEvent.HTMLURL = ''url'', GenericCommentEvent.Number = 7,
      GenericCommentEvent.Repo = exampleRepo, GenericCommentEvent.User = \<lparr>Login = commenter\<rparr>,
      IssueAuthor = \<lparr>Login = prAuthor\<rparr>, GenericCommentEvent.Assignees = asgs,
      IssueState = ''open''\<rparr>"

section \<open>The two copies agree\<close>

lemma handle_s_handle:
  "handle_s F want gc pr w =
   handle F want (author pr) (issueAuthor pr) (repo pr) (assignees pr) (number pr) (body pr)
     (htmlURL pr) gc w"
  by (simp add: handle_s_def handle_def)

lemma handleGenericComment_s_eq:
  "handleGenericComment_s F pc e w = handleGenericComment F pc e w"
  by (simp add: handleGenericComment_s_def handleGenericComment_def handle_s_handle Let_def)

lemma handlePullRequestReview_s_eq:
  "handlePullRequestReview_s F pc e w = handlePullRequestReview F pc e w"
  by (simp add: handlePullRequestReview_s_def handlePullRequestReview_def handle_s_handle Let_def)

text \<open>
  Claim C9. The handler with positional arguments and the handler with the \<open>state\<close>
  struct are the same function: for every event, every client (hence every sequence of
  results the client may give) and every starting point, \<open>handle\<close> and its two wrapping
  event handlers return the same error, make the same calls with the same arguments in
  the same order, and leave the client in the same state.
\<close>

theorem copies_agree:
  fixes author :: string and issueAuthor :: string and repo :: Repo
    and assignees :: "User list" and number :: int and body :: string and htmlURL :: string
  shows "handle_s F want gc
           \<lparr>author = author, issueAuthor = issueAuthor, repo = repo, assignees = assignees,
            number = number, body = body, htmlURL = htmlURL\<rparr> w
         = handle F want author issueAuthor repo assignees number body htmlURL gc w
       \<and> handleGenericComment_s F pc ce w = handleGenericComment F pc ce w
       \<and> handlePullRequestReview_s F pc re w = handlePullRequestReview F pc re w"
  by (simp add: handle_s_handle handleGenericComment_s_eq handlePullRequestReview_s_eq)

theorem copies_agree_witness:
  "handleGenericComment_s testFormat \<lparr>GitHubClient = testClient None (True, None) None\<rparr>
     (commentEvent ''bob'' ''alice'' ''/lgtm'' []) ([], [])
   = (None, [AssignIssueCall ''kubernetes'' ''test-infra'' 7 [''bob''],
             GetIssueLabelsCall ''kubernetes'' ''test-infra'' 7,
             AddLabelCall ''kubernetes'' ''test-infra'' 7 ''lgtm''], [''lgtm''])
   \<and> handlePullRequestReview_s testFormat \<lparr>GitHubClient = testClient None (True, None) None\<rparr>
     (reviewEvent ''bob'' ''alice'' ''changes_requested'' [\<lparr>Login = ''bob''\<rparr>]) ([], [''lgtm''])
   = (None, [GetIssueLabelsCall ''kubernetes'' ''test-infra'' 7,
             RemoveLabelCall ''kubernetes'' ''test-infra'' 7 ''lgtm''], [])
   \<and> handle_s testFormat True (testClient (Some ''denied'') (False, None) None)
       \<lparr>author = ''bob'', issueAuthor = ''alice'', repo = exampleRepo, assignees = [],
        number = 7, body = ''/lgtm'', htmlURL = ''url''\<rparr> ([], [])
   = (None, [AssignIssueCall ''kubernetes'' ''test-infra'' 7 [''bob''],
             IsMemberCall ''kubernetes'' ''bob'',
             CreateCommentCall ''kubernetes'' ''test-infra'' 7
               ''@bob: changing LGTM is restricted to assignees, and only kubernetes org members may be assigned issues.''],
      [])"
proof -
  have a: "handleGenericComment testFormat \<lparr>GitHubClient = testClient None (True, None) None\<rparr>
     (commentEvent ''bob'' ''alice'' ''/lgtm'' []) ([], [])
   = (None, [AssignIssueCall ''kubernetes'' ''test-infra'' 7 [''bob''],
             GetIssueLabelsCall ''kubernetes'' ''test-infra'' 7,
             AddLabelCall ''kubernetes'' ''test-infra'' 7 ''lgtm''], [''lgtm''])"
    by code_simp
  have b: "handlePullRequestReview testFormat \<lparr>GitHubClient = testClient None (True, None) None\<rparr>
     (reviewEvent ''bob'' ''alice'' ''changes_requested'' [\<lparr>Login = ''bob''\<rparr>]) ([], [''lgtm''])
   = (None, [GetIssueLabelsCall ''kubernetes'' ''test-infra'' 7,
             RemoveLabelCall ''kubernetes'' ''test-infra'' 7 ''lgtm''], [])"
    by code_simp
  have c: "handle testFormat True ''bob'' ''alice'' exampleRepo [] 7 ''/lgtm'' ''url''
       (testClient (Some ''denied'') (False, None) None) ([], [])
   = (None, [AssignIssueCall ''kubernetes'' ''test-infra'' 7 [''bob''],
             IsMemberCall ''kubernetes'' ''bob'',
             CreateCommentCall ''kubernetes'' ''test-infra'' 7
               ''@bob: changing LGTM is restricted to assignees, and only kubernetes org members may be assigned issues.''],
      [])"
    by code_simp
  note ca = copies_agree [where F = testFormat and want = True
      and gc = "testClient (Some ''denied'') (False, None) None"
      and author = "''bob''" and issueAuthor = "''alice''" and repo = exampleRepo
      and assignees = "[]" and number = 7 and body = "''/lgtm''" and htmlURL = "''url''"
      and w = "([], [])" and pc = "\<lparr>GitHubClient = testClient None (True, None) None\<rparr>"
      and ce = "commentEvent ''bob'' ''alice'' ''/lgtm'' []"]
  note cb = copies_agree [where w = "([], [''lgtm''])"
      and pc = "\<lparr>GitHubClient = testClient None (True, None) None\<rparr>"
      and re = "reviewEvent ''bob'' ''alice'' ''changes_requested'' [\<lparr>Login = ''bob''\<rparr>]"]
  show ?thesis
    by (simp only: ca [THEN conjunct1] ca [THEN conjunct2, THEN conjunct1]
        cb [THEN conjunct2, THEN conjunct2] a b c simp_thms)
qed

section \<open>Events that are ignored\<close>

text \<open>
  Claim C7. A review whose state is neither "approve" nor "changes_requested" is
  ignored: the review handler returns nil, makes no call and leaves the client as it
  was. Both copies.
\<close>

theorem review_other_state_ignored:
  assumes "State (Review e) \<noteq> ''approve''" and "State (Review e) \<noteq> ''changes_requested''"
  shows "handlePullRequestReview F pc e w = (None, w)
       \<and> handlePullRequestReview_s F pc e w = (None, w)"
  using assms by (simp add: handlePullRequestReview_def handlePullRequestReview_s_def)

theorem review_other_state_ignored_witness:
  "State (Review (reviewEvent ''bob'' ''alice'' ''commented'' [])) \<noteq> ''approve''
   \<and> State (Review (reviewEvent ''bob'' ''alice'' ''commented'' [])) \<noteq> ''changes_requested''
   \<and> handlePullRequestReview testFormat \<lparr>GitHubClient = testClient None (True, None) None\<rparr>
        (reviewEvent ''bob'' ''alice'' ''commented'' []) ([], [''lgtm'']) = (None, ([], [''lgtm'']))
   \<and> handlePullRequestReview_s testFormat \<lparr>GitHubClient = testClient None (True, None) None\<rparr>
        (reviewEvent ''bob'' ''alice'' ''commented'' []) ([], [''lgtm'']) = (None, ([], [''lgtm'']))"
proof -
  have a: "State (Review (reviewEvent ''bob'' ''alice'' ''commented'' [])) \<noteq> ''approve''"
    and b: "State (Review (reviewEvent ''bob'' ''alice'' ''commented'' [])) \<noteq> ''changes_requested''"
    by (simp_all add: reviewEvent_def)
  from review_other_state_ignored [OF a b] a b show ?thesis by simp
qed

text \<open>
  Claim C8. A comment event whose target is not a pull request, whose issue is not
  open, or whose action is not "created" is ignored: the comment handler returns nil,
  makes no call and leaves the client as it was. Both copies.
\<close>

theorem comment_filtered_out:
  assumes "\<not> IsPR e \<or> IssueState e \<noteq> ''open'' \<or> Action e \<noteq> GenericCommentActionCreated"
  shows "handleGenericComment F pc e w = (None, w)
       \<and> handleGenericComment_s F pc e w = (None, w)"
  using assms by (auto simp add: handleGenericComment_def handleGenericComment_s_def)

theorem comment_filtered_out_witness:
  "IssueState ((commentEvent ''bob'' ''alice'' ''/lgtm'' [])\<lparr>IssueState := ''closed''\<rparr>) \<noteq> ''open''
   \<and> handleGenericComment testFormat \<lparr>GitHubClient = testClient None (True, None) None\<rparr>
        ((commentEvent ''bob'' ''alice'' ''/lgtm'' [])\<lparr>IssueState := ''closed''\<rparr>) ([], [])
      = (None, ([], []))
   \<and> handleGenericComment_s testFormat \<lparr>GitHubClient = testClient None (True, None) None\<rparr>
        ((commentEvent ''bob'' ''alice'' ''/lgtm'' [])\<lparr>IssueState := ''closed''\<rparr>) ([], [])
      = (None, ([], []))"
proof -
  let ?e = "(commentEvent ''bob'' ''alice'' ''/lgtm'' [])\<lparr>IssueState := ''closed''\<rparr>"
  have a: "\<not> IsPR ?e \<or> IssueState ?e \<noteq> ''open'' \<or> Action ?e \<noteq> GenericCommentActionCreated"
    by (simp add: commentEvent_def)
  from comment_filtered_out [OF a] a show ?thesis by simp
qed

section \<open>What \<open>handle\<close> does, path by path\<close>

lemma isAssigneeLoop_iff: "isAssigneeLoop asgs actor \<longleftrightarrow> actor \<in> Login ` set asgs"
  by (induction asgs) auto

lemma hasLGTMLoop_iff: "hasLGTMLoop ls \<longleftrightarrow> (\<exists>l\<in>set ls. Label.Name l = ''lgtm'')"
  by (induction ls) (auto simp: lgtmLabel_def)

lemma handle_label_step:
  assumes pass: "if actor \<in> Login ` set asgs then tr1 = tr \<and> s1 = s
                 else AssignIssue gc (Login (Owner rp)) (Repo.Name rp) num [actor] s = (None, s1)
                      \<and> tr1 = tr @ [AssignIssueCall (Login (Owner rp)) (Repo.Name rp) num [actor]]"
    and labels: "GetIssueLabels gc (Login (Owner rp)) (Repo.Name rp) num s1 = ((ls, err), s2)"
  shows "handle F want actor prAuthor rp asgs num bd url gc (tr, s) =
     (if (\<exists>l\<in>set ls. Label.Name l = ''lgtm'') \<and> \<not> want then
        (fst (RemoveLabel gc (Login (Owner rp)) (Repo.Name rp) num ''lgtm'' s2),
         tr1 @ [GetIssueLabelsCall (Login (Owner rp)) (Repo.Name rp) num,
                RemoveLabelCall (Login (Owner rp)) (Repo.Name rp) num ''lgtm''],
         snd (RemoveLabel gc (Login (Owner rp)) (Repo.Name rp) num ''lgtm'' s2))
      else if \<not> (\<exists>l\<in>set ls. Label.Name l = ''lgtm'') \<and> want then
        (fst (AddLabel gc (Login (Owner rp)) (Repo.Name rp) num ''lgtm'' s2),
         tr1 @ [GetIssueLabelsCall (Login (Owner rp)) (Repo.Name rp) num,
                AddLabelCall (Login (Owner rp)) (Repo.Name rp) num ''lgtm''],
         snd (AddLabel gc (Login (Owner rp)) (Repo.Name rp) num ''lgtm'' s2))
      else (None, tr1 @ [GetIssueLabelsCall (Login (Owner rp)) (Repo.Name rp) num], s2))"
proof (cases "actor \<in> Login ` set asgs")
  case True
  with pass have "tr1 = tr" "s1 = s" by simp_all
  with True labels show ?thesis
    by (simp add: handle_def isAssigneeLoop_iff hasLGTMLoop_iff gcGetIssueLabels_def
        gcRemoveLabel_def gcAddLabel_def lgtmLabel_def Let_def case_prod_beta)
next
  case False
  with pass have a: "AssignIssue gc (Login (Owner rp)) (Repo.Name rp) num [actor] s = (None, s1)"
    and t: "tr1 = tr @ [AssignIssueCall (Login (Owner rp)) (Repo.Name rp) num [actor]]" by simp_all
  from False a t labels show ?thesis
    by (simp add: handle_def isAssigneeLoop_iff hasLGTMLoop_iff gcGetIssueLabels_def
        gcAssignIssue_def gcRemoveLabel_def gcAddLabel_def lgtmLabel_def Let_def case_prod_beta)
qed

lemma handle_assign_failed:
  assumes na: "actor \<notin> Login ` set asgs"
    and fail: "AssignIssue gc (Login (Owner rp)) (Repo.Name rp) num [actor] s = (Some err, s1)"
    and mem: "IsMember gc (Login (Owner rp)) actor s1 = ((ok, merr), s2)"
  shows "handle F want actor prAuthor rp asgs num bd url gc (tr, s) =
     (fst (CreateComment gc (Login (Owner rp)) (Repo.Name rp) num
            (F bd url actor (''changing LGTM is restricted to assignees, and '' @
               (if merr = None \<and> \<not> ok
                then ''only '' @ Login (Owner rp) @ '' org members may be assigned issues''
                else ''assigning you to the PR failed'') @ ''.'')) s2),
      tr @ [AssignIssueCall (Login (Owner rp)) (Repo.Name rp) num [actor],
            IsMemberCall (Login (Owner rp)) actor,
            CreateCommentCall (Login (Owner rp)) (Repo.Name rp) num
              (F bd url actor (''changing LGTM is restricted to assignees, and '' @
               (if merr = None \<and> \<not> ok
                then ''only '' @ Login (Owner rp) @ '' org members may be assigned issues''
                else ''assigning you to the PR failed'') @ ''.''))],
      snd (CreateComment gc (Login (Owner rp)) (Repo.Name rp) num
            (F bd url actor (''changing LGTM is restricted to assignees, and '' @
               (if merr = None \<and> \<not> ok
                then ''only '' @ Login (Owner rp) @ '' org members may be assigned issues''
                else ''assigning you to the PR failed'') @ ''.'')) s2))"
  using assms
  by (simp add: handle_def isAssigneeLoop_iff gcAssignIssue_def gcIsMember_def gcCreateComment_def Let_def case_prod_beta)

section \<open>Label mutation\<close>

text \<open>
  Claim C2. Once the assignment block is passed (the acting user is an assignee, or
  \<^verbatim>\<open>AssignIssue\<close> returned nil), \<open>handle\<close> queries the labels and then does exactly one of
  three things, decided by \<open>hasLabel\<close> (a label named "lgtm" is among those returned) and
  the intent: with the label present and not wanted, one \<^verbatim>\<open>RemoveLabel\<close> call with label
  "lgtm" and no \<^verbatim>\<open>AddLabel\<close>, returning that call's result; with the label absent and
  wanted, one \<^verbatim>\<open>AddLabel\<close> call with label "lgtm" and no \<^verbatim>\<open>RemoveLabel\<close>, returning that
  call's result; otherwise no further call, returning nil. Here \<open>tr1\<close> and \<open>s1\<close> are the
  calls made and the client state when the assignment block is left. Both copies.
\<close>

theorem label_mutation_step:
  assumes org: "org = Login (Owner rp)" and rn: "rn = Repo.Name rp"
    and pass: "if actor \<in> Login ` set asgs then tr1 = tr \<and> s1 = s
               else AssignIssue gc org rn num [actor] s = (None, s1)
                    \<and> tr1 = tr @ [AssignIssueCall org rn num [actor]]"
    and labels: "GetIssueLabels gc org rn num s1 = ((ls, err), s2)"
    and hasLabel: "hasLabel = (\<exists>l\<in>set ls. Label.Name l = ''lgtm'')"
    and res: "res = handle F wantLabel actor prAuthor rp asgs num bd url gc (tr, s)"
    and res_s: "res_s = handle_s F wantLabel gc
                  \<lparr>author = actor, issueAuthor = prAuthor, repo = rp, assignees = asgs,
                   number = num, body = bd, htmlURL = url\<rparr> (tr, s)"
  shows "(hasLabel \<and> \<not> wantLabel \<longrightarrow>
            res = (fst (RemoveLabel gc org rn num ''lgtm'' s2),
                   tr1 @ [GetIssueLabelsCall org rn num, RemoveLabelCall org rn num ''lgtm''],
                   snd (RemoveLabel gc org rn num ''lgtm'' s2)))
       \<and> (\<not> hasLabel \<and> wantLabel \<longrightarrow>
            res = (fst (AddLabel gc org rn num ''lgtm'' s2),
                   tr1 @ [GetIssueLabelsCall org rn num, AddLabelCall org rn num ''lgtm''],
                   snd (AddLabel gc org rn num ''lgtm'' s2)))
       \<and> (hasLabel = wantLabel \<longrightarrow>
            res = (None, tr1 @ [GetIssueLabelsCall org rn num], s2))
       \<and> res_s = res"
proof -
  have "res_s = res"
    by (simp add: res res_s handle_s_handle)
  moreover have "res =
     (if hasLabel \<and> \<not> wantLabel then
        (fst (RemoveLabel gc org rn num ''lgtm'' s2),
         tr1 @ [GetIssueLabelsCall org rn num, RemoveLabelCall org rn num ''lgtm''],
         snd (RemoveLabel gc org rn num ''lgtm'' s2))
      else if \<not> hasLabel \<and> wantLabel then
        (fst (AddLabel gc org rn num ''lgtm'' s2),
         tr1 @ [GetIssueLabelsCall org rn num, AddLabelCall org rn num ''lgtm''],
         snd (AddLabel gc org rn num ''lgtm'' s2))
      else (None, tr1 @ [GetIssueLabelsCall org rn num], s2))"
    unfolding res hasLabel org rn
    by (rule handle_label_step [OF pass [unfolded org rn] labels [unfolded org rn]])
  ultimately show ?thesis by auto
qed

theorem label_mutation_step_witness:
  "handle testFormat True ''bob'' ''alice'' exampleRepo [\<lparr>Login = ''bob''\<rparr>] 7 ''/lgtm'' ''url''
     (testClient None (True, None) None) ([], [])
   = (None, [GetIssueLabelsCall ''kubernetes'' ''test-infra'' 7,
             AddLabelCall ''kubernetes'' ''test-infra'' 7 ''lgtm''], [''lgtm''])
   \<and> handle testFormat False ''bob'' ''alice'' exampleRepo [] 7 ''/lgtm cancel'' ''url''
     (testClient None (True, None) None) ([], [''lgtm''])
   = (None, [AssignIssueCall ''kubernetes'' ''test-infra'' 7 [''bob''],
             GetIssueLabelsCall ''kubernetes'' ''test-infra'' 7,
             RemoveLabelCall ''kubernetes'' ''test-infra'' 7 ''lgtm''], [])
   \<and> handle_s testFormat True (testClient None (True, None) None)
        \<lparr>author = ''bob'', issueAuthor = ''alice'', repo = exampleRepo,
         assignees = [\<lparr>Login = ''bob''\<rparr>], number = 7, body = ''/lgtm'', htmlURL = ''url''\<rparr>
        ([], [''lgtm''])
   = (None, [GetIssueLabelsCall ''kubernetes'' ''test-infra'' 7], [''lgtm''])"
proof -
  let ?gc = "testClient None (True, None) None"
  have o: "''kubernetes'' = Login (Owner exampleRepo)"
    and r: "''test-infra'' = Repo.Name exampleRepo"
    by (simp_all add: exampleRepo_def)
  have p1: "if ''bob'' \<in> Login ` set [\<lparr>Login = ''bob''\<rparr>]
            then ([]::call list) = [] \<and> ([]::string list) = []
            else AssignIssue ?gc ''kubernetes'' ''test-infra'' 7 [''bob''] [] = (None, [])
                 \<and> [] = [] @ [AssignIssueCall ''kubernetes'' ''test-infra'' 7 [''bob'']]"
    by simp
  have l1: "GetIssueLabels ?gc ''kubernetes'' ''test-infra'' 7 [] = (([], None), [])"
    by (simp add: testClient_def)
  have h1: "False = (\<exists>l\<in>set ([]::Label list). Label.Name l = ''lgtm'')"
    by simp
  have p2: "if ''bob'' \<in> Login ` set []
            then [AssignIssueCall ''kubernetes'' ''test-infra'' 7 [''bob'']] = []
                 \<and> [''lgtm''] = [''lgtm'']
            else AssignIssue ?gc ''kubernetes'' ''test-infra'' 7 [''bob''] [''lgtm'']
                   = (None, [''lgtm''])
                 \<and> [AssignIssueCall ''kubernetes'' ''test-infra'' 7 [''bob'']]
                    = [] @ [AssignIssueCall ''kubernetes'' ''test-infra'' 7 [''bob'']]"
    by (simp add: testClient_def)
  have p3: "if ''bob'' \<in> Login ` set [\<lparr>Login = ''bob''\<rparr>]
            then ([]::call list) = [] \<and> [''lgtm''] = [''lgtm'']
            else AssignIssue ?gc ''kubernetes'' ''test-infra'' 7 [''bob''] [''lgtm'']
                   = (None, [''lgtm''])
                 \<and> [] = [] @ [AssignIssueCall ''kubernetes'' ''test-infra'' 7 [''bob'']]"
    by simp
  have l2: "GetIssueLabels ?gc ''kubernetes'' ''test-infra'' 7 [''lgtm'']
            = (([\<lparr>Name = ''lgtm''\<rparr>], None), [''lgtm''])"
    by (simp add: testClient_def)
  have h2: "True = (\<exists>l\<in>set [\<lparr>Name = ''lgtm''\<rparr>]. Label.Name l = ''lgtm'')"
    by simp
  show ?thesis
    using
      label_mutation_step [OF o r p1 l1 h1 refl refl, where F = testFormat and wantLabel = True
        and prAuthor = "''alice''" and bd = "''/lgtm''" and url = "''url''"]
      label_mutation_step [OF o r p2 l2 h2 refl refl, where F = testFormat and wantLabel = False
        and prAuthor = "''alice''" and bd = "''/lgtm cancel''" and url = "''url''"]
      label_mutation_step [OF o r p3 l2 h2 refl refl, where F = testFormat and wantLabel = True
        and prAuthor = "''alice''" and bd = "''/lgtm''" and url = "''url''"]
    by (simp add: testClient_def)
qed




section \<open>Assignment enforcement\<close>

text \<open>
  Claim C4. When the acting user is not among the assignees and \<^verbatim>\<open>AssignIssue\<close> fails,
  the calls of \<open>handle\<close> are \<^verbatim>\<open>AssignIssue\<close>, \<^verbatim>\<open>IsMember\<close> and one \<^verbatim>\<open>CreateComment\<close>, whose
  reply is "changing LGTM is restricted to assignees, and " followed by one of the two
  messages and "."; there is exactly one comment and no \<^verbatim>\<open>GetIssueLabels\<close>, \<^verbatim>\<open>AddLabel\<close>
  or \<^verbatim>\<open>RemoveLabel\<close> call, whatever \<^verbatim>\<open>IsMember\<close> returns. The reply reaches
  \<^verbatim>\<open>CreateComment\<close> through \<^verbatim>\<open>FormatResponseRaw\<close>, with the body, URL and login of the
  event. Both copies.
\<close>

theorem assign_failure_reply_only:
  assumes org: "org = Login (Owner rp)" and rn: "rn = Repo.Name rp"
    and na: "actor \<notin> Login ` set asgs"
    and fail: "AssignIssue gc org rn num [actor] s = (Some err, s1)"
    and res: "res = handle F wantLabel actor prAuthor rp asgs num bd url gc (tr, s)"
    and res_s: "res_s = handle_s F wantLabel gc
                  \<lparr>author = actor, issueAuthor = prAuthor, repo = rp, assignees = asgs,
                   number = num, body = bd, htmlURL = url\<rparr> (tr, s)"
    and calls: "calls = drop (length tr) (fst (snd res))"
  shows "(\<exists>msg. msg \<in> {''assigning you to the PR failed'',
                       ''only '' @ org @ '' org members may be assigned issues''}
              \<and> fst (snd res) = tr @ calls
              \<and> calls = [AssignIssueCall org rn num [actor], IsMemberCall org actor,
                   CreateCommentCall org rn num
                     (F bd url actor
                        (''changing LGTM is restricted to assignees, and '' @ msg @ ''.''))])
       \<and> length (filter isCreateComment calls) = 1
       \<and> filter isGetIssueLabels calls = []
       \<and> filter isAddLabel calls = []
       \<and> filter isRemoveLabel calls = []
       \<and> res_s = res"
proof -
  obtain ok merr s2 where mem: "IsMember gc org actor s1 = ((ok, merr), s2)"
    by (metis surj_pair)
  let ?msg = "if merr = None \<and> \<not> ok
              then ''only '' @ org @ '' org members may be assigned issues''
              else ''assigning you to the PR failed''"
  let ?text = "F bd url actor (''changing LGTM is restricted to assignees, and '' @ ?msg @ ''.'')"
  note h = handle_assign_failed [OF na fail [unfolded org rn] mem [unfolded org],
      where F = F and want = wantLabel and prAuthor = prAuthor and bd = bd and url = url
        and tr = tr, folded org rn]
  have tr: "fst (snd res) = tr @ [AssignIssueCall org rn num [actor], IsMemberCall org actor,
              CreateCommentCall org rn num ?text]"
    unfolding res h by simp
  then have c: "calls = [AssignIssueCall org rn num [actor], IsMemberCall org actor,
              CreateCommentCall org rn num ?text]"
    by (simp add: calls)
  have m: "?msg \<in> {''assigning you to the PR failed'',
                    ''only '' @ org @ '' org members may be assigned issues''}"
    by simp
  have "res_s = res"
    by (simp add: res res_s handle_s_handle)
  moreover from tr c m have "\<exists>msg. msg \<in> {''assigning you to the PR failed'',
                       ''only '' @ org @ '' org members may be assigned issues''}
              \<and> fst (snd res) = tr @ calls
              \<and> calls = [AssignIssueCall org rn num [actor], IsMemberCall org actor,
                   CreateCommentCall org rn num
                     (F bd url actor
                        (''changing LGTM is restricted to assignees, and '' @ msg @ ''.''))]"
    by (intro exI [of _ ?msg]) simp
  moreover have "length (filter isCreateComment calls) = 1" "filter isGetIssueLabels calls = []"
    "filter isAddLabel calls = []" "filter isRemoveLabel calls = []"
    by (simp_all add: c)
  ultimately show ?thesis by blast
qed

theorem assign_failure_reply_only_witness:
  "handle testFormat True ''bob'' ''alice'' exampleRepo [\<lparr>Login = ''carol''\<rparr>] 7 ''/lgtm'' ''url''
     (testClient (Some ''denied'') (True, Some ''timeout'') None) ([], [])
   = (None, [AssignIssueCall ''kubernetes'' ''test-infra'' 7 [''bob''],
             IsMemberCall ''kubernetes'' ''bob'',
             CreateCommentCall ''kubernetes'' ''test-infra'' 7
               ''@bob: changing LGTM is restricted to assignees, and assigning you to the PR failed.''],
      [])
   \<and> length (filter isCreateComment (drop (length ([]::call list)) (fst (snd
        (handle testFormat True ''bob'' ''alice'' exampleRepo [\<lparr>Login = ''carol''\<rparr>] 7 ''/lgtm''
           ''url'' (testClient (Some ''denied'') (True, Some ''timeout'') None) ([], [])))))) = 1"
proof -
  let ?gc = "testClient (Some ''denied'') (True, Some ''timeout'') None"
  have o: "''kubernetes'' = Login (Owner exampleRepo)"
    and r: "''test-infra'' = Repo.Name exampleRepo"
    by (simp_all add: exampleRepo_def)
  have na: "''bob'' \<notin> Login ` set [\<lparr>Login = ''carol''\<rparr>]"
    by simp
  have f: "AssignIssue ?gc ''kubernetes'' ''test-infra'' 7 [''bob''] [] = (Some ''denied'', [])"
    by (simp add: testClient_def)
  have v: "handle testFormat True ''bob'' ''alice'' exampleRepo [\<lparr>Login = ''carol''\<rparr>] 7 ''/lgtm''
     ''url'' ?gc ([], [])
   = (None, [AssignIssueCall ''kubernetes'' ''test-infra'' 7 [''bob''],
             IsMemberCall ''kubernetes'' ''bob'',
             CreateCommentCall ''kubernetes'' ''test-infra'' 7
               ''@bob: changing LGTM is restricted to assignees, and assigning you to the PR failed.''],
      [])"
    by code_simp
  from assign_failure_reply_only [OF o r na f refl refl refl, where F = testFormat
      and wantLabel = True and prAuthor = "''alice''" and bd = "''/lgtm''" and url = "''url''"
      and tr = "[]"]
  have "length (filter isCreateComment (drop (length ([]::call list)) (fst (snd
        (handle testFormat True ''bob'' ''alice'' exampleRepo [\<lparr>Login = ''carol''\<rparr>] 7 ''/lgtm''
           ''url'' ?gc ([], [])))))) = 1"
    by blast
  with v show ?thesis by blast
qed

text \<open>
  Claim C6. The message of that reply: when \<^verbatim>\<open>IsMember\<close> succeeds and returns false, it
  names the organization ("only <org> org members may be assigned issues"); when
  \<^verbatim>\<open>IsMember\<close> itself fails, or the user is a member, it is "assigning you to the PR
  failed". Both copies.
\<close>

theorem assign_failure_message:
  assumes org: "org = Login (Owner rp)" and rn: "rn = Repo.Name rp"
    and na: "actor \<notin> Login ` set asgs"
    and fail: "AssignIssue gc org rn num [actor] s = (Some err, s1)"
    and mem: "IsMember gc org actor s1 = ((ok, merr), s2)"
    and res: "res = handle F wantLabel actor prAuthor rp asgs num bd url gc (tr, s)"
    and res_s: "res_s = handle_s F wantLabel gc
                  \<lparr>author = actor, issueAuthor = prAuthor, repo = rp, assignees = asgs,
                   number = num, body = bd, htmlURL = url\<rparr> (tr, s)"
  shows "(merr = None \<and> \<not> ok \<longrightarrow>
            fst (snd res) = tr @ [AssignIssueCall org rn num [actor], IsMemberCall org actor,
              CreateCommentCall org rn num
                (F bd url actor
                   (''changing LGTM is restricted to assignees, and only '' @ org @
                    '' org members may be assigned issues.''))])
       \<and> (merr \<noteq> None \<or> ok \<longrightarrow>
            fst (snd res) = tr @ [AssignIssueCall org rn num [actor], IsMemberCall org actor,
              CreateCommentCall org rn num
                (F bd url actor
                   ''changing LGTM is restricted to assignees, and assigning you to the PR failed.'')])
       \<and> res_s = res"
proof -
  note h = handle_assign_failed [OF na fail [unfolded org rn] mem [unfolded org],
      where F = F and want = wantLabel and prAuthor = prAuthor and bd = bd and url = url
        and tr = tr, folded org rn]
  have "res_s = res"
    by (simp add: res res_s handle_s_handle)
  moreover have "merr = None \<and> \<not> ok \<longrightarrow>
            fst (snd res) = tr @ [AssignIssueCall org rn num [actor], IsMemberCall org actor,
              CreateCommentCall org rn num
                (F bd url actor
                   (''changing LGTM is restricted to assignees, and only '' @ org @
                    '' org members may be assigned issues.''))]"
    unfolding res h by simp
  moreover have "merr \<noteq> None \<or> ok \<longrightarrow>
            fst (snd res) = tr @ [AssignIssueCall org rn num [actor], IsMemberCall org actor,
              CreateCommentCall org rn num
                (F bd url actor
                   ''changing LGTM is restricted to assignees, and assigning you to the PR failed.'')]"
    unfolding res h by auto
  ultimately show ?thesis by blast
qed

theorem assign_failure_message_witness:
  "fst (snd (handle testFormat True ''bob'' ''alice'' exampleRepo [] 7 ''/lgtm'' ''url''
     (testClient (Some ''denied'') (False, None) None) ([], [])))
   = [AssignIssueCall ''kubernetes'' ''test-infra'' 7 [''bob''],
      IsMemberCall ''kubernetes'' ''bob'',
      CreateCommentCall ''kubernetes'' ''test-infra'' 7
        ''@bob: changing LGTM is restricted to assignees, and only kubernetes org members may be assigned issues.'']
   \<and> fst (snd (handle testFormat True ''bob'' ''alice'' exampleRepo [] 7 ''/lgtm'' ''url''
     (testClient (Some ''denied'') (False, Some ''timeout'') None) ([], [])))
   = [AssignIssueCall ''kubernetes'' ''test-infra'' 7 [''bob''],
      IsMemberCall ''kubernetes'' ''bob'',
      CreateCommentCall ''kubernetes'' ''test-infra'' 7
        ''@bob: changing LGTM is restricted to assignees, and assigning you to the PR failed.'']
   \<and> fst (snd (handle testFormat True ''bob'' ''alice'' exampleRepo [] 7 ''/lgtm'' ''url''
     (testClient (Some ''denied'') (True, None) None) ([], [])))
   = [AssignIssueCall ''kubernetes'' ''test-infra'' 7 [''bob''],
      IsMemberCall ''kubernetes'' ''bob'',
      CreateCommentCall ''kubernetes'' ''test-infra'' 7
        ''@bob: changing LGTM is restricted to assignees, and assigning you to the PR failed.'']"
proof -
  have o: "''kubernetes'' = Login (Owner exampleRepo)"
    and r: "''test-infra'' = Repo.Name exampleRepo"
    by (simp_all add: exampleRepo_def)
  have na: "''bob'' \<notin> Login ` set []"
    by simp
  have f: "AssignIssue (testClient (Some ''denied'') m None) ''kubernetes'' ''test-infra'' 7
             [''bob''] [] = (Some ''denied'', [])" for m
    by (simp add: testClient_def)
  have m: "IsMember (testClient (Some ''denied'') (ok, merr) None) ''kubernetes'' ''bob'' []
           = ((ok, merr), [])" for ok merr
    by (simp add: testClient_def)
  show ?thesis
    using assign_failure_message [OF o r na f [of "(False, None)"] m [of False None] refl refl,
        where F = testFormat and wantLabel = True and prAuthor = "''alice''"
        and bd = "''/lgtm''" and url = "''url''" and tr = "[]"]
      assign_failure_message [OF o r na f [of "(False, Some ''timeout'')"] m [of False "Some ''timeout''"] refl refl,
        where F = testFormat and wantLabel = True and prAuthor = "''alice''"
        and bd = "''/lgtm''" and url = "''url''" and tr = "[]"]
      assign_failure_message [OF o r na f [of "(True, None)"] m [of True None] refl refl,
        where F = testFormat and wantLabel = True and prAuthor = "''alice''"
        and bd = "''/lgtm''" and url = "''url''" and tr = "[]"]
    by (simp add: testFormat_def)
qed

section \<open>The self-approval guard\<close>

text \<open>
  The guard is in \<open>handleGenericComment\<close>: a comment by the author of the pull request
  that matches \<open>lgtmRe\<close> gets one reply and nothing else; a cancel by the author goes on
  to \<open>handle\<close>.
\<close>

lemma comment_self_lgtm_refused:
  assumes "IsPR e" and "IssueState e = ''open''" and "Action e = GenericCommentActionCreated"
    and "MatchString lgtmRe (GenericCommentEvent.Body e)"
    and "Login (GenericCommentEvent.User e) = Login (IssueAuthor e)"
    and "text = F (GenericCommentEvent.Body e) (GenericCommentEvent.HTMLURL e)
                  (Login (GenericCommentEvent.User e)) ''you cannot LGTM your own PR.''"
    and "org = Login (Owner (GenericCommentEvent.Repo e))"
    and "rn = Repo.Name (GenericCommentEvent.Repo e)"
    and "n = GenericCommentEvent.Number e"
  shows "handleGenericComment F pc e (tr, s) =
           (fst (CreateComment (GitHubClient pc) org rn n text s),
            tr @ [CreateCommentCall org rn n text],
            snd (CreateComment (GitHubClient pc) org rn n text s))"
  using assms
  by (simp add: handleGenericComment_def gcCreateComment_def Let_def case_prod_beta)

lemma comment_self_cancel_proceeds:
  assumes "IsPR e" and "IssueState e = ''open''" and "Action e = GenericCommentActionCreated"
    and "\<not> MatchString lgtmRe (GenericCommentEvent.Body e)"
    and "MatchString lgtmCancelRe (GenericCommentEvent.Body e)"
  shows "handleGenericComment F pc e w =
           handle F False (Login (GenericCommentEvent.User e)) (Login (IssueAuthor e))
             (GenericCommentEvent.Repo e) (GenericCommentEvent.Assignees e)
             (GenericCommentEvent.Number e) (GenericCommentEvent.Body e)
             (GenericCommentEvent.HTMLURL e) (GitHubClient pc) w"
  using assms by (simp add: handleGenericComment_def Let_def)

text \<open>
  Claim C1. The claim covers review events too, and there the guard is missing:
  \<open>handlePullRequestReview\<close> passes an approving review by the author of the pull
  request straight to \<open>handle\<close>. With an author who is not yet an assignee and an issue
  without the label, the handler assigns the author and adds the label, and posts no
  comment. Both copies.
\<close>

theorem review_self_approval_not_refused:
  "handlePullRequestReview testFormat \<lparr>GitHubClient = testClient None (True, None) None\<rparr>
     (reviewEvent ''alice'' ''alice'' ''approve'' []) ([], [])
   = (None, [AssignIssueCall ''kubernetes'' ''test-infra'' 7 [''alice''],
             GetIssueLabelsCall ''kubernetes'' ''test-infra'' 7,
             AddLabelCall ''kubernetes'' ''test-infra'' 7 ''lgtm''], [''lgtm''])
   \<and> handlePullRequestReview_s testFormat \<lparr>GitHubClient = testClient None (True, None) None\<rparr>
     (reviewEvent ''alice'' ''alice'' ''approve'' []) ([], [])
   = (None, [AssignIssueCall ''kubernetes'' ''test-infra'' 7 [''alice''],
             GetIssueLabelsCall ''kubernetes'' ''test-infra'' 7,
             AddLabelCall ''kubernetes'' ''test-infra'' 7 ''lgtm''], [''lgtm''])"
  by code_simp


section \<open>The patterns, line by line\<close>

text \<open>
  \<open>MatchString\<close> on the two patterns is compared with the line-by-line reading of the
  specification. First the case-insensitive literals, then the \<^verbatim>\<open>\s*$\<close> tail (which may
  run over newlines, without changing what matches), then the anchor \<^verbatim>\<open>^\<close> over all
  start positions.
\<close>

lemma map_of_zip_in_set: "map_of (zip xs ys) c = Some u \<Longrightarrow> u \<in> set ys"
  by (meson map_of_SomeD set_zip_rightD)

lemma take_length_iff: "take (length r) t = r \<longleftrightarrow> (\<exists>u. t = r @ u)"
  by (metis append_eq_conv_conj append_take_drop_id)

lemma foldOrbit_nonempty: "r \<in> set (foldOrbit c) \<Longrightarrow> r \<noteq> []"
  by (auto simp: foldOrbit_def foldExtra_def split: option.splits if_splits)

lemma foldOrbit_no_newline:
  assumes "c \<noteq> newline" and "r \<in> set (foldOrbit c)"
  shows "newline \<notin> set r"
proof -
  have up: "newline \<notin> set asciiUpper" and lo: "newline \<notin> set asciiLower"
    by (simp_all add: asciiUpper_def asciiLower_def newline_def)
  have ex: "newline \<notin> set x" if "x \<in> set (foldExtra l)" for x l
    using that by (auto simp: foldExtra_def newline_def split: if_splits)
  show ?thesis
  proof (cases "map_of (zip asciiLower asciiUpper) c")
    case (Some u)
    then have "u \<in> set asciiUpper" by (rule map_of_zip_in_set)
    with up have "u \<noteq> newline" by auto
    with Some assms ex show ?thesis by (auto simp: foldOrbit_def)
  next
    case None
    note n = None
    show ?thesis
    proof (cases "map_of (zip asciiUpper asciiLower) c")
      case (Some l)
      then have "l \<in> set asciiLower" by (rule map_of_zip_in_set)
      with lo have "l \<noteq> newline" by auto
      with Some n assms ex show ?thesis by (auto simp: foldOrbit_def)
    next
      case None
      with n assms show ?thesis by (auto simp: foldOrbit_def)
    qed
  qed
qed

lemma eqFold_Cons:
  "eqFold t (c # cs) \<longleftrightarrow> (\<exists>r\<in>set (foldOrbit c). \<exists>u. t = r @ u \<and> eqFold u cs)"
proof -
  have "eqFold t (c # cs) \<longleftrightarrow>
        (\<exists>r\<in>set (foldOrbit c). take (length r) t = r \<and> eqFold (drop (length r) t) cs)"
    by (simp add: list_ex_iff)
  also have "\<dots> \<longleftrightarrow> (\<exists>r\<in>set (foldOrbit c). \<exists>u. t = r @ u \<and> eqFold u cs)"
    by (metis append_eq_conv_conj)
  finally show ?thesis .
qed

lemma eqFold_no_newline:
  "newline \<notin> set pat \<Longrightarrow> eqFold t pat \<Longrightarrow> newline \<notin> set t"
proof (induction pat arbitrary: t)
  case Nil
  then show ?case by simp
next
  case (Cons c cs)
  from Cons.prems(2) obtain r u where r: "r \<in> set (foldOrbit c)" and t: "t = r @ u"
    and rest: "eqFold u cs"
    unfolding eqFold_Cons by blast
  from Cons.prems(1) have "c \<noteq> newline" "newline \<notin> set cs" by auto
  then have "newline \<notin> set r" "newline \<notin> set u"
    using r rest Cons.IH foldOrbit_no_newline by blast+
  with t show ?case by simp
qed

lemma eqFold_append:
  "eqFold t (a @ b) \<longleftrightarrow> (\<exists>t1 t2. t = t1 @ t2 \<and> eqFold t1 a \<and> eqFold t2 b)"
proof (induction a arbitrary: t)
  case Nil
  then show ?case by simp
next
  case (Cons c cs)
  have "eqFold t ((c # cs) @ b) \<longleftrightarrow>
        (\<exists>r\<in>set (foldOrbit c). \<exists>u. t = r @ u \<and> (\<exists>t1 t2. u = t1 @ t2 \<and> eqFold t1 cs \<and> eqFold t2 b))"
    using Cons.IH by (simp only: append_Cons eqFold_Cons)
  also have "\<dots> \<longleftrightarrow> (\<exists>t1 t2. t = t1 @ t2 \<and> eqFold t1 (c # cs) \<and> eqFold t2 b)"
    unfolding eqFold_Cons
  proof (intro iffI; elim bexE exE conjE)
    fix r u t1 t2
    assume "r \<in> set (foldOrbit c)" "t = r @ u" "u = t1 @ t2" "eqFold t1 cs" "eqFold t2 b"
    then have "t = (r @ t1) @ t2 \<and> (\<exists>r'\<in>set (foldOrbit c). \<exists>u'. r @ t1 = r' @ u' \<and> eqFold u' cs)
               \<and> eqFold t2 b"
      by auto
    then show "\<exists>t1 t2. t = t1 @ t2 \<and> (\<exists>r\<in>set (foldOrbit c). \<exists>u. t1 = r @ u \<and> eqFold u cs) \<and> eqFold t2 b"
      by blast
  next
    fix t1 t2 r u
    assume "t = t1 @ t2" "eqFold t2 b" "r \<in> set (foldOrbit c)" "t1 = r @ u" "eqFold u cs"
    then have "r \<in> set (foldOrbit c) \<and> t = r @ (u @ t2) \<and> u @ t2 = u @ t2 \<and> eqFold u cs \<and> eqFold t2 b"
      by simp
    then show "\<exists>r\<in>set (foldOrbit c). \<exists>u. t = r @ u \<and> (\<exists>t1 t2. u = t1 @ t2 \<and> eqFold t1 cs \<and> eqFold t2 b)"
      by blast
  qed
  finally show ?case .
qed

lemma stepRunes_iff:
  "(q, s') \<in> set (stepRunes rs (p, s)) \<longleftrightarrow>
   (\<exists>r\<in>set rs. r \<noteq> [] \<and> s = r @ s' \<and> q = Some (last r))"
proof (induction rs)
  case Nil
  then show ?case by simp
next
  case (Cons r rs)
  have "take (length r) s = r \<and> s' = drop (length r) s \<longleftrightarrow> s = r @ s'"
    by (metis append_eq_conv_conj)
  with Cons show ?case by auto
qed

lemma rmatch_Cat_nonempty:
  "rmatch (Cat a b) cfg \<noteq> [] \<longleftrightarrow> (\<exists>cfg'\<in>set (rmatch a cfg). rmatch b cfg' \<noteq> [])"
  by simp

lemma rmatch_foldLit:
  "s' \<in> snd ` set (rmatch (foldLit pat) (p, s)) \<longleftrightarrow> (\<exists>t. s = t @ s' \<and> eqFold t pat)"
proof (induction pat arbitrary: p s)
  case Nil
  then show ?case by auto
next
  case (Cons c cs)
  have "s' \<in> snd ` set (rmatch (foldLit (c # cs)) (p, s)) \<longleftrightarrow>
        (\<exists>q u. (q, u) \<in> set (stepRunes (foldOrbit c) (p, s))
               \<and> s' \<in> snd ` set (rmatch (foldLit cs) (q, u)))"
    by (auto simp: image_iff) 
  also have "\<dots> \<longleftrightarrow> (\<exists>r\<in>set (foldOrbit c). \<exists>u. s = r @ u \<and> (\<exists>t. u = t @ s' \<and> eqFold t cs))"
    unfolding stepRunes_iff Cons.IH using foldOrbit_nonempty by blast
  also have "\<dots> \<longleftrightarrow> (\<exists>t. s = t @ s' \<and> eqFold t (c # cs))"
    unfolding eqFold_Cons
  proof (intro iffI; elim bexE exE conjE)
    fix r u t
    assume "r \<in> set (foldOrbit c)" "s = r @ u" "u = t @ s'" "eqFold t cs"
    then have "s = (r @ t) @ s' \<and> r \<in> set (foldOrbit c) \<and> r @ t = r @ t \<and> eqFold t cs"
      by simp
    then show "\<exists>t. s = t @ s' \<and> (\<exists>r\<in>set (foldOrbit c). \<exists>u. t = r @ u \<and> eqFold u cs)"
      by blast
  next
    fix t r u
    assume "s = t @ s'" "r \<in> set (foldOrbit c)" "t = r @ u" "eqFold u cs"
    then have "r \<in> set (foldOrbit c) \<and> s = r @ (u @ s') \<and> u @ s' = u @ s' \<and> eqFold u cs"
      by simp
    then show "\<exists>r\<in>set (foldOrbit c). \<exists>u. s = r @ u \<and> (\<exists>t. u = t @ s' \<and> eqFold t cs)"
      by blast
  qed
  finally show ?case .
qed

lemma rmatch_EndLine_nonempty:
  "rmatch EndLine (p, s) \<noteq> [] \<longleftrightarrow> s = [] \<or> hd s = newline"
  by (cases s) auto

lemma tail_nonempty:
  "rmatch (Cat (StarAscii spaceClass) EndLine) (p, s) \<noteq> [] \<longleftrightarrow>
   (\<forall>c\<in>set (takeWhile (\<lambda>c. c \<noteq> newline) s). c \<in> set spaceClass)"
proof (induction s arbitrary: p)
  case Nil
  then show ?case by simp
next
  case (Cons x xs)
  have nl: "newline \<in> set spaceClass"
    by (simp add: spaceClass_def newline_def)
  have step: "rmatch (Cat (StarAscii spaceClass) EndLine) (p, x # xs) =
      rmatch EndLine (p, x # xs) @
      (if x \<in> set spaceClass then rmatch (Cat (StarAscii spaceClass) EndLine) (Some x, xs) else [])"
    by simp
  have e: "rmatch EndLine (p, x # xs) \<noteq> [] \<longleftrightarrow> x = newline"
    by simp
  have "rmatch (Cat (StarAscii spaceClass) EndLine) (p, x # xs) \<noteq> [] \<longleftrightarrow>
        x = newline \<or> (x \<in> set spaceClass
          \<and> rmatch (Cat (StarAscii spaceClass) EndLine) (Some x, xs) \<noteq> [])"
    unfolding step using e by (simp del: rmatch.simps)
  also have "\<dots> \<longleftrightarrow> x = newline \<or> (x \<in> set spaceClass
          \<and> (\<forall>c\<in>set (takeWhile (\<lambda>c. c \<noteq> newline) xs). c \<in> set spaceClass))"
    unfolding Cons.IH ..
  also have "\<dots> \<longleftrightarrow> (\<forall>c\<in>set (takeWhile (\<lambda>c. c \<noteq> newline) (x # xs)). c \<in> set spaceClass)"
    by auto
  finally show ?case .
qed

lemma hd_splitLines: "hd (splitLines s) = takeWhile (\<lambda>c. c \<noteq> newline) s"
  by (induction s) auto

lemma splitLines_nonempty: "splitLines s \<noteq> []"
  by (induction s) auto

lemma lineIs_iff:
  "lineIs pat l \<longleftrightarrow> (\<exists>t ws. l = t @ ws \<and> eqFold t pat \<and> set ws \<subseteq> set spaceClass)"
proof
  assume "lineIs pat l"
  then obtain k where "eqFold (take k l) pat" "set (drop k l) \<subseteq> set spaceClass"
    unfolding lineIs_def list_ex_iff list_all_iff by blast
  then have "l = take k l @ drop k l \<and> eqFold (take k l) pat \<and> set (drop k l) \<subseteq> set spaceClass"
    by simp
  then show "\<exists>t ws. l = t @ ws \<and> eqFold t pat \<and> set ws \<subseteq> set spaceClass"
    by blast
next
  assume "\<exists>t ws. l = t @ ws \<and> eqFold t pat \<and> set ws \<subseteq> set spaceClass"
  then obtain t ws where l: "l = t @ ws" and e: "eqFold t pat" and w: "set ws \<subseteq> set spaceClass"
    by blast
  have "length t \<in> set [0..<Suc (length l)]"
    by (simp add: l)
  moreover have "eqFold (take (length t) l) pat \<and> list_all (\<lambda>c. c \<in> set spaceClass) (drop (length t) l)"
    using e w by (auto simp: l list_all_iff)
  ultimately show "lineIs pat l"
    unfolding lineIs_def list_ex_iff by blast
qed

lemma takeWhile_dropWhile_Nil: "takeWhile P (dropWhile P xs) = []"
  by (induction xs) auto

lemma match_then_tail_is_line:
  assumes pat: "newline \<notin> set pat"
  shows "(\<exists>t s'. s = t @ s' \<and> eqFold t pat
            \<and> (\<forall>c\<in>set (takeWhile (\<lambda>c. c \<noteq> newline) s'). c \<in> set spaceClass))
         \<longleftrightarrow> lineIs pat (takeWhile (\<lambda>c. c \<noteq> newline) s)"
proof
  assume "\<exists>t s'. s = t @ s' \<and> eqFold t pat
            \<and> (\<forall>c\<in>set (takeWhile (\<lambda>c. c \<noteq> newline) s'). c \<in> set spaceClass)"
  then obtain t s' where s: "s = t @ s'" and e: "eqFold t pat"
    and w: "\<forall>c\<in>set (takeWhile (\<lambda>c. c \<noteq> newline) s'). c \<in> set spaceClass"
    by blast
  from pat e have "newline \<notin> set t" by (rule eqFold_no_newline)
  then have "takeWhile (\<lambda>c. c \<noteq> newline) s = t @ takeWhile (\<lambda>c. c \<noteq> newline) s'"
    unfolding s by (intro takeWhile_append2) auto
  with e w show "lineIs pat (takeWhile (\<lambda>c. c \<noteq> newline) s)"
    unfolding lineIs_iff by blast
next
  assume "lineIs pat (takeWhile (\<lambda>c. c \<noteq> newline) s)"
  then obtain t ws where l: "takeWhile (\<lambda>c. c \<noteq> newline) s = t @ ws" and e: "eqFold t pat"
    and w: "set ws \<subseteq> set spaceClass"
    unfolding lineIs_iff by blast
  let ?rest = "dropWhile (\<lambda>c. c \<noteq> newline) s"
  have s: "s = t @ (ws @ ?rest)"
    using l by (metis append_assoc takeWhile_dropWhile_id)
  have "set ws \<subseteq> set (takeWhile (\<lambda>c. c \<noteq> newline) s)"
    by (simp add: l)
  then have "\<forall>c\<in>set ws. c \<noteq> newline"
    by (auto dest: set_takeWhileD)
  then have "takeWhile (\<lambda>c. c \<noteq> newline) (ws @ ?rest) = ws"
    by (simp add: takeWhile_dropWhile_Nil)
  with w have "\<forall>c\<in>set (takeWhile (\<lambda>c. c \<noteq> newline) (ws @ ?rest)). c \<in> set spaceClass"
    by auto
  with s e show "\<exists>t s'. s = t @ s' \<and> eqFold t pat
            \<and> (\<forall>c\<in>set (takeWhile (\<lambda>c. c \<noteq> newline) s'). c \<in> set spaceClass)"
    by blast
qed

lemma Cat_nonempty_snd:
  assumes "\<And>q u. (rmatch b (q, u) \<noteq> []) = Q u"
  shows "rmatch (Cat a b) cfg \<noteq> [] \<longleftrightarrow> (\<exists>u. u \<in> snd ` set (rmatch a cfg) \<and> Q u)"
proof -
  have "rmatch b x \<noteq> [] \<longleftrightarrow> Q (snd x)" for x
    using assms [of "fst x" "snd x"] by simp
  then show ?thesis by auto
qed

lemma Opt_Cat_nonempty:
  "rmatch (Cat (Opt a) b) cfg \<noteq> [] \<longleftrightarrow> rmatch b cfg \<noteq> [] \<or> rmatch (Cat a b) cfg \<noteq> []"
  by auto

lemma lit_tail_nonempty:
  assumes "newline \<notin> set pat"
  shows "rmatch (Cat (foldLit pat) (Cat (StarAscii spaceClass) EndLine)) (p, s) \<noteq> [] \<longleftrightarrow>
         lineIs pat (takeWhile (\<lambda>c. c \<noteq> newline) s)"
proof -
  let ?tail = "Cat (StarAscii spaceClass) EndLine"
  have "rmatch (Cat (foldLit pat) ?tail) (p, s) \<noteq> [] \<longleftrightarrow>
        (\<exists>s'. s' \<in> snd ` set (rmatch (foldLit pat) (p, s))
                 \<and> (\<forall>c\<in>set (takeWhile (\<lambda>c. c \<noteq> newline) s'). c \<in> set spaceClass))"
    by (rule Cat_nonempty_snd [OF tail_nonempty])
  also have "\<dots> \<longleftrightarrow> (\<exists>t s'. s = t @ s' \<and> eqFold t pat
            \<and> (\<forall>c\<in>set (takeWhile (\<lambda>c. c \<noteq> newline) s'). c \<in> set spaceClass))"
    unfolding rmatch_foldLit by blast
  also have "\<dots> \<longleftrightarrow> lineIs pat (takeWhile (\<lambda>c. c \<noteq> newline) s)"
    by (rule match_then_tail_is_line [OF assms])
  finally show ?thesis .
qed

lemma lit_opt_tail_nonempty:
  assumes "newline \<notin> set a" and "newline \<notin> set b"
  shows "rmatch (Cat (foldLit a) (Cat (Opt (foldLit b)) (Cat (StarAscii spaceClass) EndLine))) (p, s)
           \<noteq> [] \<longleftrightarrow>
         lineIs a (takeWhile (\<lambda>c. c \<noteq> newline) s)
         \<or> lineIs (a @ b) (takeWhile (\<lambda>c. c \<noteq> newline) s)"
proof -
  let ?tail = "Cat (StarAscii spaceClass) EndLine"
  let ?ok = "\<lambda>s'. \<forall>c\<in>set (takeWhile (\<lambda>c. c \<noteq> newline) s'). c \<in> set spaceClass"
  have inner: "rmatch (Cat (Opt (foldLit b)) ?tail) (q, u) \<noteq> [] \<longleftrightarrow>
               ?ok u \<or> (\<exists>t2 s''. u = t2 @ s'' \<and> eqFold t2 b \<and> ?ok s'')" for q u
  proof -
    have "rmatch (Cat (Opt (foldLit b)) ?tail) (q, u) \<noteq> [] \<longleftrightarrow>
          rmatch ?tail (q, u) \<noteq> [] \<or> rmatch (Cat (foldLit b) ?tail) (q, u) \<noteq> []"
      by (rule Opt_Cat_nonempty)
    also have "\<dots> \<longleftrightarrow> ?ok u \<or> (\<exists>s''. s'' \<in> snd ` set (rmatch (foldLit b) (q, u)) \<and> ?ok s'')"
      by (simp only: tail_nonempty Cat_nonempty_snd [OF tail_nonempty])
    also have "\<dots> \<longleftrightarrow> ?ok u \<or> (\<exists>t2 s''. u = t2 @ s'' \<and> eqFold t2 b \<and> ?ok s'')"
      unfolding rmatch_foldLit by blast
    finally show ?thesis .
  qed
  have "rmatch (Cat (foldLit a) (Cat (Opt (foldLit b)) ?tail)) (p, s) \<noteq> [] \<longleftrightarrow>
        (\<exists>u. u \<in> snd ` set (rmatch (foldLit a) (p, s))
               \<and> (?ok u \<or> (\<exists>t2 s''. u = t2 @ s'' \<and> eqFold t2 b \<and> ?ok s'')))"
    by (rule Cat_nonempty_snd [OF inner])
  also have "\<dots> \<longleftrightarrow> (\<exists>t u. s = t @ u \<and> eqFold t a
               \<and> (?ok u \<or> (\<exists>t2 s''. u = t2 @ s'' \<and> eqFold t2 b \<and> ?ok s'')))"
    unfolding rmatch_foldLit by blast
  also have "\<dots> \<longleftrightarrow> (\<exists>t u. s = t @ u \<and> eqFold t a \<and> ?ok u)
                   \<or> (\<exists>t s''. s = t @ s'' \<and> eqFold t (a @ b) \<and> ?ok s'')"
    unfolding eqFold_append
  proof (intro iffI; elim exE conjE disjE)
    fix t u t2 s''
    assume "s = t @ u" "eqFold t a" "u = t2 @ s''" "eqFold t2 b" "?ok s''"
    then have "s = (t @ t2) @ s'' \<and> t @ t2 = t @ t2 \<and> eqFold t a \<and> eqFold t2 b \<and> ?ok s''"
      by simp
    then show "(\<exists>t u. s = t @ u \<and> eqFold t a \<and> ?ok u)
               \<or> (\<exists>t s''. s = t @ s'' \<and> (\<exists>t1 t2. t = t1 @ t2 \<and> eqFold t1 a \<and> eqFold t2 b) \<and> ?ok s'')"
      by blast
  next
    fix t s'' t1 t2
    assume "s = t @ s''" "?ok s''" "t = t1 @ t2" "eqFold t1 a" "eqFold t2 b"
    then have "s = t1 @ (t2 @ s'') \<and> eqFold t1 a \<and> t2 @ s'' = t2 @ s'' \<and> eqFold t2 b \<and> ?ok s''"
      by simp
    then show "\<exists>t u. s = t @ u \<and> eqFold t a
               \<and> (?ok u \<or> (\<exists>t2 s''. u = t2 @ s'' \<and> eqFold t2 b \<and> ?ok s''))"
      by blast
  qed blast+
  also have "\<dots> \<longleftrightarrow> lineIs a (takeWhile (\<lambda>c. c \<noteq> newline) s)
                   \<or> lineIs (a @ b) (takeWhile (\<lambda>c. c \<noteq> newline) s)"
    using match_then_tail_is_line [OF assms(1), of s] match_then_tail_is_line [of "a @ b" s] assms
    by simp
  finally show ?thesis .
qed

lemma list_ex_hd_tl: "xs \<noteq> [] \<Longrightarrow> list_ex L xs \<longleftrightarrow> L (hd xs) \<or> list_ex L (tl xs)"
  by (cases xs) auto

lemma MatchString_lines:
  assumes X: "\<And>p s. (rmatch X (p, s) \<noteq> []) = L (takeWhile (\<lambda>c. c \<noteq> newline) s)"
  shows "MatchString (Cat BeginLine X) s \<longleftrightarrow> list_ex L (splitLines s)"
proof -
  have bol: "rmatch (Cat BeginLine X) (p, s) \<noteq> [] \<longleftrightarrow>
             (p = None \<or> p = Some newline) \<and> L (hd (splitLines s))" for p s
    by (auto simp: X hd_splitLines)
  have gen: "list_ex (\<lambda>cfg. rmatch (Cat BeginLine X) cfg \<noteq> []) (positions p s) \<longleftrightarrow>
             ((p = None \<or> p = Some newline) \<and> L (hd (splitLines s)))
             \<or> list_ex L (tl (splitLines s))" for p s
  proof (induction s arbitrary: p)
    case Nil
    show ?case using bol [of p "[]"] by (simp del: rmatch.simps)
  next
    case (Cons x xs)
    have "list_ex (\<lambda>cfg. rmatch (Cat BeginLine X) cfg \<noteq> []) (positions p (x # xs)) \<longleftrightarrow>
          ((p = None \<or> p = Some newline) \<and> L (hd (splitLines (x # xs))))
          \<or> (x = newline \<and> L (hd (splitLines xs))) \<or> list_ex L (tl (splitLines xs))"
      using bol [of p "x # xs"] Cons.IH [of "Some x"] by (simp del: rmatch.simps splitLines.simps)
    also have "(x = newline \<and> L (hd (splitLines xs))) \<or> list_ex L (tl (splitLines xs))
               \<longleftrightarrow> list_ex L (tl (splitLines (x # xs)))"
      using list_ex_hd_tl [OF splitLines_nonempty, of L xs] by auto
    finally show ?case .
  qed
  show ?thesis
    unfolding MatchString_def gen using list_ex_hd_tl [OF splitLines_nonempty, of L s] by simp
qed

lemma lgtmRe_lines: "MatchString lgtmRe s \<longleftrightarrow> list_ex lgtmLine (splitLines s)"
proof -
  have a: "newline \<notin> set ''/lgtm''" and b: "newline \<notin> set '' no-issue''"
    by (simp_all add: newline_def)
  have "MatchString lgtmRe s \<longleftrightarrow>
        list_ex (\<lambda>l. lineIs ''/lgtm'' l \<or> lineIs (''/lgtm'' @ '' no-issue'') l) (splitLines s)"
    unfolding lgtmRe_def by (rule MatchString_lines) (rule lit_opt_tail_nonempty [OF a b])
  then show ?thesis
    by (simp add: lgtmLine_def [abs_def])
qed

lemma lgtmCancelRe_lines: "MatchString lgtmCancelRe s \<longleftrightarrow> list_ex cancelLine (splitLines s)"
proof -
  have a: "newline \<notin> set ''/lgtm cancel''"
    by (simp add: newline_def)
  have "MatchString lgtmCancelRe s \<longleftrightarrow> list_ex (lineIs ''/lgtm cancel'') (splitLines s)"
    unfolding lgtmCancelRe_def by (rule MatchString_lines) (rule lit_tail_nonempty [OF a])
  then show ?thesis
    by (simp add: cancelLine_def [abs_def])
qed

lemma handleGenericComment_intent:
  assumes "IsPR e" and "IssueState e = ''open''" and "Action e = GenericCommentActionCreated"
  shows "handleGenericComment F pc e w =
    (if list_ex lgtmLine (splitLines (GenericCommentEvent.Body e)) then
       (if Login (GenericCommentEvent.User e) = Login (IssueAuthor e)
        then gcCreateComment (GitHubClient pc) (Login (Owner (GenericCommentEvent.Repo e)))
               (Repo.Name (GenericCommentEvent.Repo e)) (GenericCommentEvent.Number e)
               (F (GenericCommentEvent.Body e) (GenericCommentEvent.HTMLURL e)
                  (Login (GenericCommentEvent.User e)) ''you cannot LGTM your own PR.'') w
        else handle F True (Login (GenericCommentEvent.User e)) (Login (IssueAuthor e))
               (GenericCommentEvent.Repo e) (GenericCommentEvent.Assignees e)
               (GenericCommentEvent.Number e) (GenericCommentEvent.Body e)
               (GenericCommentEvent.HTMLURL e) (GitHubClient pc) w)
     else if list_ex cancelLine (splitLines (GenericCommentEvent.Body e)) then
       handle F False (Login (GenericCommentEvent.User e)) (Login (IssueAuthor e))
         (GenericCommentEvent.Repo e) (GenericCommentEvent.Assignees e)
         (GenericCommentEvent.Number e) (GenericCommentEvent.Body e)
         (GenericCommentEvent.HTMLURL e) (GitHubClient pc) w
     else (None, w))"
  using assms
  by (simp add: handleGenericComment_def Let_def lgtmRe_lines lgtmCancelRe_lines)

lemmas run_defs = handle_def Let_def gcAssignIssue_def gcIsMember_def gcCreateComment_def
  gcGetIssueLabels_def gcAddLabel_def gcRemoveLabel_def testClient_def testFormat_def
  exampleRepo_def commentEvent_def lgtmLabel_def

section \<open>Intent extraction\<close>

text \<open>
  Claim C3. For a comment event that passes the filter, the intent is read from the
  body line by line and ignoring case. \<open>lgtmRe\<close> matches exactly when some line is
  \<^verbatim>\<open>/lgtm\<close> or \<^verbatim>\<open>/lgtm no-issue\<close> followed only by whitespace, and then the intent is
  true: the handler goes on as with \<^verbatim>\<open>wantLGTM = true\<close> (\<open>wantTrue\<close>: the refusal for the
  author, \<open>handle\<close> with true otherwise). \<open>lgtmCancelRe\<close> matches exactly when some line
  is \<^verbatim>\<open>/lgtm cancel\<close> followed only by whitespace, and, no line being affirmative, the
  intent is false: the handler goes on as \<open>handle\<close> with false. A body with neither kind
  of line makes the handler return nil at once, with no call. Both copies.
\<close>

theorem intent_extraction:
  assumes pr: "IsPR e" and opn: "IssueState e = ''open''"
    and act: "Action e = GenericCommentActionCreated"
    and lines: "lines = splitLines (GenericCommentEvent.Body e)"
    and wantTrue: "wantTrue =
        (if Login (GenericCommentEvent.User e) = Login (IssueAuthor e)
         then gcCreateComment (GitHubClient pc) (Login (Owner (GenericCommentEvent.Repo e)))
                (Repo.Name (GenericCommentEvent.Repo e)) (GenericCommentEvent.Number e)
                (F (GenericCommentEvent.Body e) (GenericCommentEvent.HTMLURL e)
                   (Login (GenericCommentEvent.User e)) ''you cannot LGTM your own PR.'') w
         else handle F True (Login (GenericCommentEvent.User e)) (Login (IssueAuthor e))
                (GenericCommentEvent.Repo e) (GenericCommentEvent.Assignees e)
                (GenericCommentEvent.Number e) (GenericCommentEvent.Body e)
                (GenericCommentEvent.HTMLURL e) (GitHubClient pc) w)"
    and wantFalse: "wantFalse =
        handle F False (Login (GenericCommentEvent.User e)) (Login (IssueAuthor e))
          (GenericCommentEvent.Repo e) (GenericCommentEvent.Assignees e)
          (GenericCommentEvent.Number e) (GenericCommentEvent.Body e)
          (GenericCommentEvent.HTMLURL e) (GitHubClient pc) w"
  shows "(MatchString lgtmRe (GenericCommentEvent.Body e) \<longleftrightarrow> list_ex lgtmLine lines)
       \<and> (MatchString lgtmCancelRe (GenericCommentEvent.Body e) \<longleftrightarrow> list_ex cancelLine lines)
       \<and> (list_ex lgtmLine lines \<longrightarrow> handleGenericComment F pc e w = wantTrue)
       \<and> (list_ex cancelLine lines \<and> \<not> list_ex lgtmLine lines \<longrightarrow>
            handleGenericComment F pc e w = wantFalse)
       \<and> (\<not> list_ex lgtmLine lines \<and> \<not> list_ex cancelLine lines \<longrightarrow>
            handleGenericComment F pc e w = (None, w))
       \<and> handleGenericComment_s F pc e w = handleGenericComment F pc e w"
  unfolding lines wantTrue wantFalse
  by (simp add: handleGenericComment_intent [OF pr opn act] lgtmRe_lines lgtmCancelRe_lines
      handleGenericComment_s_eq)

theorem intent_extraction_witness:
  "handleGenericComment testFormat \<lparr>GitHubClient = testClient None (True, None) None\<rparr>
     (commentEvent ''bob'' ''alice'' ''thanks\<newline>/LGTM no-issue  '' [\<lparr>Login = ''bob''\<rparr>]) ([], [])
   = (None, [GetIssueLabelsCall ''kubernetes'' ''test-infra'' 7,
             AddLabelCall ''kubernetes'' ''test-infra'' 7 ''lgtm''], [''lgtm''])
   \<and> handleGenericComment testFormat \<lparr>GitHubClient = testClient None (True, None) None\<rparr>
     (commentEvent ''bob'' ''alice'' ''/lgtm cancel'' [\<lparr>Login = ''bob''\<rparr>]) ([], [''lgtm''])
   = (None, [GetIssueLabelsCall ''kubernetes'' ''test-infra'' 7,
             RemoveLabelCall ''kubernetes'' ''test-infra'' 7 ''lgtm''], [])
   \<and> handleGenericComment testFormat \<lparr>GitHubClient = testClient None (True, None) None\<rparr>
     (commentEvent ''bob'' ''alice'' ''/lgtm please'' [\<lparr>Login = ''bob''\<rparr>]) ([], [])
   = (None, [], [])"
proof -
  let ?pc = "\<lparr>GitHubClient = testClient None (True, None) None\<rparr>"
  let ?e1 = "commentEvent ''bob'' ''alice'' ''thanks\<newline>/LGTM no-issue  '' [\<lparr>Login = ''bob''\<rparr>]"
  let ?e2 = "commentEvent ''bob'' ''alice'' ''/lgtm cancel'' [\<lparr>Login = ''bob''\<rparr>]"
  let ?e3 = "commentEvent ''bob'' ''alice'' ''/lgtm please'' [\<lparr>Login = ''bob''\<rparr>]"
  have f: "IsPR (commentEvent a b c d)" "IssueState (commentEvent a b c d) = ''open''"
    "Action (commentEvent a b c d) = GenericCommentActionCreated" for a b c d
    by (simp_all add: commentEvent_def GenericCommentActionCreated_def)
  have b: "GenericCommentEvent.Body (commentEvent a b c d) = c" for a b c d
    by (simp add: commentEvent_def)
  have y1: "list_ex lgtmLine (splitLines (GenericCommentEvent.Body ?e1))"
    unfolding b lgtmRe_lines [symmetric] lgtmCancelRe_lines [symmetric] by code_simp
  have y2: "list_ex cancelLine (splitLines (GenericCommentEvent.Body ?e2))
            \<and> \<not> list_ex lgtmLine (splitLines (GenericCommentEvent.Body ?e2))"
    unfolding b lgtmRe_lines [symmetric] lgtmCancelRe_lines [symmetric] by code_simp
  have y3: "\<not> list_ex lgtmLine (splitLines (GenericCommentEvent.Body ?e3))
            \<and> \<not> list_ex cancelLine (splitLines (GenericCommentEvent.Body ?e3))"
    unfolding b lgtmRe_lines [symmetric] lgtmCancelRe_lines [symmetric] by code_simp
  note t1 = intent_extraction [OF f refl refl refl, where F = testFormat and pc = ?pc
      and w = "([], [])", of "''bob''" "''alice''" "''thanks\<newline>/LGTM no-issue  ''" "[\<lparr>Login = ''bob''\<rparr>]"]
  note t2 = intent_extraction [OF f refl refl refl, where F = testFormat and pc = ?pc
      and w = "([], [''lgtm''])", of "''bob''" "''alice''" "''/lgtm cancel''" "[\<lparr>Login = ''bob''\<rparr>]"]
  note t3 = intent_extraction [OF f refl refl refl, where F = testFormat and pc = ?pc
      and w = "([], [])", of "''bob''" "''alice''" "''/lgtm please''" "[\<lparr>Login = ''bob''\<rparr>]"]
  have v1: "handleGenericComment testFormat ?pc ?e1 ([], [])
            = (None, [GetIssueLabelsCall ''kubernetes'' ''test-infra'' 7,
                      AddLabelCall ''kubernetes'' ''test-infra'' 7 ''lgtm''], [''lgtm''])"
    using t1 [THEN conjunct2, THEN conjunct2, THEN conjunct1, THEN mp, OF y1]
    by (simp add: run_defs)
  have v2: "handleGenericComment testFormat ?pc ?e2 ([], [''lgtm''])
            = (None, [GetIssueLabelsCall ''kubernetes'' ''test-infra'' 7,
                      RemoveLabelCall ''kubernetes'' ''test-infra'' 7 ''lgtm''], [])"
    using t2 [THEN conjunct2, THEN conjunct2, THEN conjunct2, THEN conjunct1, THEN mp, OF y2]
    by (simp add: run_defs)
  have v3: "handleGenericComment testFormat ?pc ?e3 ([], []) = (None, [], [])"
    using t3 [THEN conjunct2, THEN conjunct2, THEN conjunct2, THEN conjunct2, THEN conjunct1,
        THEN mp, OF y3]
    by simp
  from v1 v2 v3 show ?thesis by (intro conjI)
qed

text \<open>
  Claim C10. When a body has both an affirmative line and a cancel line, both patterns
  match and the intent is true: \<open>lgtmRe\<close> is tested first. The handler goes on as with
  \<^verbatim>\<open>wantLGTM = true\<close>. Both copies.
\<close>

theorem lgtm_wins_over_cancel:
  assumes pr: "IsPR e" and opn: "IssueState e = ''open''"
    and act: "Action e = GenericCommentActionCreated"
    and yes: "list_ex lgtmLine (splitLines (GenericCommentEvent.Body e))"
    and no: "list_ex cancelLine (splitLines (GenericCommentEvent.Body e))"
    and wantTrue: "wantTrue =
        (if Login (GenericCommentEvent.User e) = Login (IssueAuthor e)
         then gcCreateComment (GitHubClient pc) (Login (Owner (GenericCommentEvent.Repo e)))
                (Repo.Name (GenericCommentEvent.Repo e)) (GenericCommentEvent.Number e)
                (F (GenericCommentEvent.Body e) (GenericCommentEvent.HTMLURL e)
                   (Login (GenericCommentEvent.User e)) ''you cannot LGTM your own PR.'') w
         else handle F True (Login (GenericCommentEvent.User e)) (Login (IssueAuthor e))
                (GenericCommentEvent.Repo e) (GenericCommentEvent.Assignees e)
                (GenericCommentEvent.Number e) (GenericCommentEvent.Body e)
                (GenericCommentEvent.HTMLURL e) (GitHubClient pc) w)"
  shows "MatchString lgtmRe (GenericCommentEvent.Body e)
       \<and> MatchString lgtmCancelRe (GenericCommentEvent.Body e)
       \<and> handleGenericComment F pc e w = wantTrue
       \<and> handleGenericComment_s F pc e w = wantTrue"
  unfolding wantTrue using yes no
  by (simp add: handleGenericComment_intent [OF pr opn act] lgtmRe_lines lgtmCancelRe_lines
      handleGenericComment_s_eq)

theorem lgtm_wins_over_cancel_witness:
  "handleGenericComment testFormat \<lparr>GitHubClient = testClient None (True, None) None\<rparr>
     (commentEvent ''bob'' ''alice'' ''/lgtm cancel\<newline>/lgtm'' [\<lparr>Login = ''bob''\<rparr>]) ([], [])
   = (None, [GetIssueLabelsCall ''kubernetes'' ''test-infra'' 7,
             AddLabelCall ''kubernetes'' ''test-infra'' 7 ''lgtm''], [''lgtm''])"
proof -
  let ?pc = "\<lparr>GitHubClient = testClient None (True, None) None\<rparr>"
  let ?e = "commentEvent ''bob'' ''alice'' ''/lgtm cancel\<newline>/lgtm'' [\<lparr>Login = ''bob''\<rparr>]"
  have f: "IsPR ?e" "IssueState ?e = ''open''" "Action ?e = GenericCommentActionCreated"
    by (simp_all add: commentEvent_def GenericCommentActionCreated_def)
  have b: "GenericCommentEvent.Body ?e = ''/lgtm cancel\<newline>/lgtm''"
    by (simp add: commentEvent_def)
  have y: "list_ex lgtmLine (splitLines (GenericCommentEvent.Body ?e))"
    and n: "list_ex cancelLine (splitLines (GenericCommentEvent.Body ?e))"
    unfolding b lgtmRe_lines [symmetric] lgtmCancelRe_lines [symmetric] by code_simp+
  show ?thesis
    using lgtm_wins_over_cancel [OF f y n refl, where F = testFormat and pc = ?pc
        and w = "([], [])", THEN conjunct2, THEN conjunct2, THEN conjunct1]
    by (simp add: run_defs)
qed

end
